theory Spec2Isabelle
  imports Main "HOL-Library.Char_ord" "HOL-Library.List_Lexorder" "HOL-Library.Multiset"
begin

section \<open>Errors and text\<close>

text \<open>
  The exceptions that the validation, persistence and settings functions of
  \<^verbatim>\<open>ProyectoV3.py\<close> raise. \<open>ValueError\<close> carries the message the program gives it;
  \<open>InvalidLiteral\<close> is the \<^verbatim>\<open>ValueError\<close> that the builtin \<^verbatim>\<open>int()\<close> raises for a text
  that is no integer literal. \<open>IntegrityError\<close> and \<open>OperationalError\<close> are those of the
  \<^verbatim>\<open>sqlite3\<close> module; \<open>OverflowError\<close> is raised when a Python integer bound to a
  statement does not fit SQLite's 64-bit INTEGER.

  A Python \<^verbatim>\<open>str\<close> is modelled by its UTF-8 bytes (\<^typ>\<open>string\<close>), the form in which SQLite
  stores and compares TEXT.
\<close>

datatype error =
    ValueError string
  | InvalidLiteral string
  | IntegrityError
  | OperationalError
  | OverflowError

text \<open>
  What the interpreter and its platform decide: the Unicode decimal digits beyond ASCII
  (UTF-8 encoding and digit value of each), whether \<^verbatim>\<open>strftime("%Y")\<close> pads the year to
  four digits (the C library's choice), and the limit on the digits of an integer literal
  (\<^verbatim>\<open>sys.get_int_max_str_digits()\<close>, 0 when there is none).
\<close>

record runtime =
  nd_digits :: "(string \<times> nat) list"
  pad_year :: bool
  int_max_str_digits :: nat

text \<open>
  The characters for which \<^verbatim>\<open>str.isspace()\<close> holds, in UTF-8: the ASCII controls
  \<^verbatim>\<open>\t \n \v \f \r\<close>, \<^verbatim>\<open>\x1c\<close> to \<^verbatim>\<open>\x1f\<close> and the space, then U+0085, U+00A0,
  U+1680, U+2000 to U+200A, U+2028, U+2029, U+202F, U+205F and U+3000.
\<close>

definition unicode_space :: "string list" where
  "unicode_space =
     map (\<lambda>c. [c]) [CHR 0x09, CHR 0x0A, CHR 0x0B, CHR 0x0C, CHR 0x0D,
                    CHR 0x1C, CHR 0x1D, CHR 0x1E, CHR 0x1F, CHR 0x20] @
     [[CHR 0xC2, CHR 0x85], [CHR 0xC2, CHR 0xA0], [CHR 0xE1, CHR 0x9A, CHR 0x80]] @
     map (\<lambda>c. [CHR 0xE2, CHR 0x80, c])
       [CHR 0x80, CHR 0x81, CHR 0x82, CHR 0x83, CHR 0x84, CHR 0x85, CHR 0x86, CHR 0x87,
        CHR 0x88, CHR 0x89, CHR 0x8A, CHR 0xA8, CHR 0xA9, CHR 0xAF] @
     [[CHR 0xE2, CHR 0x81, CHR 0x9F], [CHR 0xE3, CHR 0x80, CHR 0x80]]"

text \<open>The number of bytes of the whitespace character a text starts (ends) with; 0 if none.\<close>

definition starts_with :: "string \<Rightarrow> string \<Rightarrow> bool" where
  "starts_with w s \<longleftrightarrow> w \<noteq> [] \<and> take (length w) s = w"

definition space_len :: "string \<Rightarrow> nat" where
  "space_len s = (case find (\<lambda>w. starts_with w s) unicode_space of
                    None \<Rightarrow> 0 | Some w \<Rightarrow> length w)"

definition space_len_end :: "string \<Rightarrow> nat" where
  "space_len_end s = (case find (\<lambda>w. starts_with (rev w) (rev s)) unicode_space of
                        None \<Rightarrow> 0 | Some w \<Rightarrow> length w)"

lemma find_holds: "find P xs = Some x \<Longrightarrow> P x"
  by (induction xs) (auto split: if_splits)

lemma starts_with_shorter: "starts_with w s \<Longrightarrow> length s - length w < length s"
  by (cases s; cases w) (auto simp: starts_with_def)

lemma space_len_shorter: "space_len s \<noteq> 0 \<Longrightarrow> length (drop (space_len s) s) < length s"
proof -
  assume "space_len s \<noteq> 0"
  then obtain w where "find (\<lambda>w. starts_with w s) unicode_space = Some w" "space_len s = length w"
    by (auto simp: space_len_def split: option.splits)
  then show ?thesis
    using find_holds [of "\<lambda>w. starts_with w s"] starts_with_shorter [of w s] by simp
qed

lemma space_len_end_shorter:
  "space_len_end s \<noteq> 0 \<Longrightarrow> length (take (length s - space_len_end s) s) < length s"
proof -
  assume "space_len_end s \<noteq> 0"
  then obtain w where "find (\<lambda>w. starts_with (rev w) (rev s)) unicode_space = Some w"
      "space_len_end s = length w"
    by (auto simp: space_len_end_def split: option.splits)
  then show ?thesis
    using find_holds [of "\<lambda>w. starts_with (rev w) (rev s)"]
      starts_with_shorter [of "rev w" "rev s"] by simp
qed

text \<open>\<^verbatim>\<open>str.strip()\<close>: whitespace removed at both ends.\<close>

function lstrip :: "string \<Rightarrow> string" where
  "lstrip s = (if space_len s = 0 then s else lstrip (drop (space_len s) s))"
  by pat_completeness auto
termination
  by (relation "measure length") (use space_len_shorter in auto)

function rstrip :: "string \<Rightarrow> string" where
  "rstrip s = (if space_len_end s = 0 then s else rstrip (take (length s - space_len_end s) s))"
  by pat_completeness auto
termination
  by (relation "measure length") (use space_len_end_shorter in auto)

declare lstrip.simps [simp del] rstrip.simps [simp del]

definition strip :: "string \<Rightarrow> string" where
  "strip s = rstrip (lstrip s)"

text \<open>Decimal digits and zero padding, as \<^verbatim>\<open>%d\<close>, \<^verbatim>\<open>%02d\<close> and \<^verbatim>\<open>%04d\<close> write them.\<close>

definition digit_char :: "nat \<Rightarrow> char" where
  "digit_char n = char_of (48 + n)"

fun dec :: "nat \<Rightarrow> string" where
  "dec n = (if n < 10 then [digit_char n] else dec (n div 10) @ [digit_char (n mod 10)])"

declare dec.simps [simp del]

definition zpad :: "nat \<Rightarrow> nat \<Rightarrow> string" where
  "zpad w n = replicate (w - length (dec n)) (CHR ''0'') @ dec n"

section \<open>Integer literals\<close>

text \<open>
  One decimal digit at the head of a text: its value and the rest. ASCII digits are read
  directly, the others through the runtime's table.
\<close>

definition digit_at :: "runtime \<Rightarrow> string \<Rightarrow> (nat \<times> string) option" where
  "digit_at rt s =
     (case s of
        [] \<Rightarrow> None
      | c # cs \<Rightarrow>
          if (of_char c :: nat) < 128
          then (if CHR ''0'' \<le> c \<and> c \<le> CHR ''9'' then Some (of_char c - 48, cs) else None)
          else (case find (\<lambda>(k, v). starts_with k s) (nd_digits rt) of
                  None \<Rightarrow> None
                | Some (k, v) \<Rightarrow> Some (v, drop (length k) s)))"

lemma digit_at_shorter: "digit_at rt s = Some (v, r) \<Longrightarrow> length r < length s"
proof -
  assume a: "digit_at rt s = Some (v, r)"
  then obtain c cs where s: "s = c # cs"
    by (cases s) (auto simp: digit_at_def)
  show ?thesis
  proof (cases "(of_char c :: nat) < 128")
    case True
    with a s show ?thesis by (auto simp: digit_at_def split: if_splits)
  next
    case False
    with a s obtain k where "find (\<lambda>(k, v). starts_with k s) (nd_digits rt) = Some (k, v)"
        "r = drop (length k) s"
      by (auto simp: digit_at_def split: option.splits)
    then show ?thesis
      using find_holds [of "\<lambda>(k, v). starts_with k s" "nd_digits rt" "(k, v)"]
        starts_with_shorter [of k s] by simp
  qed
qed

text \<open>
  The digits of a literal up to the end of the text: a digit, then digits each of which
  a single underscore may precede.
\<close>

function digits_to_end :: "runtime \<Rightarrow> string \<Rightarrow> nat list option" where
  "digits_to_end rt s =
     (case digit_at rt s of
        None \<Rightarrow> None
      | Some (v, r) \<Rightarrow>
          if r = [] then Some [v]
          else map_option ((#) v)
                 (digits_to_end rt (if hd r = CHR ''_'' then tl r else r)))"
  by pat_completeness auto
termination
proof (relation "measure (\<lambda>(rt, s). length s)")
  show "wf (measure (\<lambda>(rt, s). length s))" by simp
next
  fix rt s x2 v r
  assume "digit_at rt s = Some x2" "(v, r) = x2" "r \<noteq> []"
  then have "length r < length s" using digit_at_shorter [of rt s v r] by simp
  then show "((rt, if hd r = CHR ''_'' then tl r else r), rt, s) \<in> measure (\<lambda>(rt, s). length s)"
    by auto
qed

declare digits_to_end.simps [simp del]

text \<open>
  The whitespace that \<^verbatim>\<open>int()\<close> skips at both ends of its argument: the C whitespace
  among ASCII, and every Unicode space beyond ASCII.
\<close>

definition int_space_len :: "string \<Rightarrow> nat" where
  "int_space_len s =
     (case s of
        [] \<Rightarrow> 0
      | c # cs \<Rightarrow>
          if (of_char c :: nat) < 128
          then (if c \<in> set [CHR 0x09, CHR 0x0A, CHR 0x0B, CHR 0x0C, CHR 0x0D, CHR 0x20]
                then 1 else 0)
          else space_len s)"

definition int_space_len_end :: "string \<Rightarrow> nat" where
  "int_space_len_end s =
     (case rev s of
        [] \<Rightarrow> 0
      | c # cs \<Rightarrow>
          if (of_char c :: nat) < 128
          then (if c \<in> set [CHR 0x09, CHR 0x0A, CHR 0x0B, CHR 0x0C, CHR 0x0D, CHR 0x20]
                then 1 else 0)
          else space_len_end s)"

function int_lstrip :: "string \<Rightarrow> string" where
  "int_lstrip s = (if int_space_len s = 0 then s else int_lstrip (drop (int_space_len s) s))"
  by pat_completeness auto
termination
proof (relation "measure length")
  show "wf (measure length)" by simp
next
  fix s :: string
  assume "int_space_len s \<noteq> 0"
  then have "length (drop (int_space_len s) s) < length s"
    using space_len_shorter [of s]
    by (cases s) (auto simp: int_space_len_def split: if_splits)
  then show "(drop (int_space_len s) s, s) \<in> measure length" by simp
qed

function int_rstrip :: "string \<Rightarrow> string" where
  "int_rstrip s =
     (if int_space_len_end s = 0 then s else int_rstrip (take (length s - int_space_len_end s) s))"
  by pat_completeness auto
termination
proof (relation "measure length")
  show "wf (measure length)" by simp
next
  fix s :: string
  assume "int_space_len_end s \<noteq> 0"
  then have "length (take (length s - int_space_len_end s) s) < length s"
    using space_len_end_shorter [of s]
    by (cases "rev s") (auto simp: int_space_len_end_def split: if_splits)
  then show "(take (length s - int_space_len_end s) s, s) \<in> measure length" by simp
qed

declare int_lstrip.simps [simp del] int_rstrip.simps [simp del]

text \<open>
  \<^verbatim>\<open>int(s)\<close> in base 10: surrounding whitespace, an optional sign, the digits. A literal
  of more digits than the runtime's limit (never below 640) is refused as well.
\<close>

definition py_int :: "runtime \<Rightarrow> string \<Rightarrow> int option" where
  "py_int rt s =
     (let t = int_rstrip (int_lstrip s);
          neg = (t \<noteq> [] \<and> hd t = CHR ''-'');
          u = (if t \<noteq> [] \<and> (hd t = CHR ''-'' \<or> hd t = CHR ''+'') then tl t else t)
      in case digits_to_end rt u of
           None \<Rightarrow> None
         | Some ds \<Rightarrow>
             if 0 < int_max_str_digits rt \<and> max 640 (int_max_str_digits rt) < length ds
             then None
             else (let n = int (foldl (\<lambda>a v. 10 * a + v) 0 ds) in
                   Some (if neg then - n else n)))"

section \<open>Dates and times\<close>

record datetime =
  year :: nat
  month :: nat
  day :: nat
  hour :: nat
  minute :: nat
  second :: nat

text \<open>\<^verbatim>\<open>datetime.isoformat(timespec="seconds")\<close> of a naive datetime.\<close>

definition isoformat :: "datetime \<Rightarrow> string" where
  "isoformat dt =
     zpad 4 (year dt) @ ''-'' @ zpad 2 (month dt) @ ''-'' @ zpad 2 (day dt) @ ''T'' @
     zpad 2 (hour dt) @ '':'' @ zpad 2 (minute dt) @ '':'' @ zpad 2 (second dt)"

text \<open>
  \<^verbatim>\<open>strftime("%Y-%m-%d %H:%M")\<close>. The C library writes \<^verbatim>\<open>%Y\<close>; whether a year below
  1000 is padded with zeros is the runtime's \<open>pad_year\<close>.
\<close>

definition strftime :: "runtime \<Rightarrow> datetime \<Rightarrow> string" where
  "strftime rt dt =
     (if pad_year rt then zpad 4 (year dt) else dec (year dt)) @ ''-'' @ zpad 2 (month dt) @
     ''-'' @ zpad 2 (day dt) @ '' '' @ zpad 2 (hour dt) @ '':'' @ zpad 2 (minute dt)"

text \<open>The calendar check of the \<^verbatim>\<open>datetime\<close> constructor.\<close>

definition is_leap :: "nat \<Rightarrow> bool" where
  "is_leap y \<longleftrightarrow> y mod 4 = 0 \<and> (y mod 100 \<noteq> 0 \<or> y mod 400 = 0)"

definition days_in_month :: "nat \<Rightarrow> nat \<Rightarrow> nat" where
  "days_in_month y m =
     (if m = 2 then (if is_leap y then 29 else 28)
      else if m \<in> set [4, 6, 9, 11] then 30 else 31)"

definition valid_date :: "nat \<Rightarrow> nat \<Rightarrow> nat \<Rightarrow> bool" where
  "valid_date y m d \<longleftrightarrow>
     1 \<le> y \<and> y \<le> 9999 \<and> 1 \<le> m \<and> m \<le> 12 \<and> 1 \<le> d \<and> d \<le> days_in_month y m"

subsection \<open>The pattern of \<^verbatim>\<open>strptime\<close>\<close>

text \<open>
  \<^verbatim>\<open>strptime\<close> turns the format \<^verbatim>\<open>"%Y-%m-%d %H:%M"\<close> into the regular expression
  \<^verbatim>\<open>(?P<Y>\d\d\d\d)-(?P<m>1[0-2]|0[1-9]|[1-9])-(?P<d>3[0-1]|[1-2]\d|0[1-9]|[1-9]| [1-9])\<close>
  \<^verbatim>\<open>\s+(?P<H>2[0-3]|[0-1]\d|\d):(?P<M>[0-5]\d|\d)\<close>
  and matches it at the start of the text. A matcher returns the ways it can match at
  the head of a text, each as the text matched and the rest, in the order in which a
  backtracking engine tries them.
\<close>

type_synonym rx = "string \<Rightarrow> (string \<times> string) list"

definition rx_digit :: "runtime \<Rightarrow> rx" where
  "rx_digit rt s = (case digit_at rt s of
                      None \<Rightarrow> []
                    | Some (v, r) \<Rightarrow> [(take (length s - length r) s, r)])"

definition rx_range :: "char \<Rightarrow> char \<Rightarrow> rx" where
  "rx_range lo hi s = (case s of
                         [] \<Rightarrow> []
                       | c # cs \<Rightarrow> if lo \<le> c \<and> c \<le> hi then [([c], cs)] else [])"

definition rx_char :: "char \<Rightarrow> rx" where
  "rx_char a = rx_range a a"

definition rx_seq :: "rx \<Rightarrow> rx \<Rightarrow> rx" where
  "rx_seq p q s = concat (map (\<lambda>(a, r). map (\<lambda>(b, r'). (a @ b, r')) (q r)) (p s))"

definition rx_alt :: "rx \<Rightarrow> rx \<Rightarrow> rx" where
  "rx_alt p q s = p s @ q s"

text \<open>\<^verbatim>\<open>\s*\<close> and \<^verbatim>\<open>\s+\<close>, greedy: the longest run of whitespace first.\<close>

function rx_spaces :: rx where
  "rx_spaces s =
     (if space_len s = 0 then [([], s)]
      else map (\<lambda>(a, r). (take (space_len s) s @ a, r)) (rx_spaces (drop (space_len s) s)) @
           [([], s)])"
  by pat_completeness auto
termination
  by (relation "measure length") (use space_len_shorter in auto)

declare rx_spaces.simps [simp del]

definition rx_spaces1 :: rx where
  "rx_spaces1 s =
     (if space_len s = 0 then []
      else map (\<lambda>(a, r). (take (space_len s) s @ a, r)) (rx_spaces (drop (space_len s) s)))"

definition rx_Y :: "runtime \<Rightarrow> rx" where
  "rx_Y rt = rx_seq (rx_digit rt) (rx_seq (rx_digit rt) (rx_seq (rx_digit rt) (rx_digit rt)))"

definition rx_m :: rx where
  "rx_m = rx_alt (rx_seq (rx_char (CHR ''1'')) (rx_range (CHR ''0'') (CHR ''2'')))
         (rx_alt (rx_seq (rx_char (CHR ''0'')) (rx_range (CHR ''1'') (CHR ''9'')))
                 (rx_range (CHR ''1'') (CHR ''9'')))"

definition rx_d :: "runtime \<Rightarrow> rx" where
  "rx_d rt = rx_alt (rx_seq (rx_char (CHR ''3'')) (rx_range (CHR ''0'') (CHR ''1'')))
            (rx_alt (rx_seq (rx_range (CHR ''1'') (CHR ''2'')) (rx_digit rt))
            (rx_alt (rx_seq (rx_char (CHR ''0'')) (rx_range (CHR ''1'') (CHR ''9'')))
            (rx_alt (rx_range (CHR ''1'') (CHR ''9''))
                    (rx_seq (rx_char (CHR '' '')) (rx_range (CHR ''1'') (CHR ''9''))))))"

definition rx_H :: "runtime \<Rightarrow> rx" where
  "rx_H rt = rx_alt (rx_seq (rx_char (CHR ''2'')) (rx_range (CHR ''0'') (CHR ''3'')))
            (rx_alt (rx_seq (rx_range (CHR ''0'') (CHR ''1'')) (rx_digit rt))
                    (rx_digit rt))"

definition rx_M :: "runtime \<Rightarrow> rx" where
  "rx_M rt = rx_alt (rx_seq (rx_range (CHR ''0'') (CHR ''5'')) (rx_digit rt)) (rx_digit rt)"

text \<open>
  The whole pattern: every way to match it, as the five captured groups and the
  unmatched rest, in the engine's order.
\<close>

definition rx_format ::
  "runtime \<Rightarrow> string \<Rightarrow>
   ((string \<times> string \<times> string \<times> string \<times> string) \<times> string) list" where
  "rx_format rt s =
     concat (map (\<lambda>(gY, s1). concat (map (\<lambda>(_, s2).
     concat (map (\<lambda>(gm, s3). concat (map (\<lambda>(_, s4).
     concat (map (\<lambda>(gd, s5). concat (map (\<lambda>(_, s6).
     concat (map (\<lambda>(gH, s7). concat (map (\<lambda>(_, s8).
     map (\<lambda>(gM, s9). ((gY, gm, gd, gH, gM), s9)) (rx_M rt s8))
       (rx_char (CHR '':'') s7))) (rx_H rt s6)))
       (rx_spaces1 s5))) (rx_d rt s4)))
       (rx_char (CHR ''-'') s3))) (rx_m s2)))
       (rx_char (CHR ''-'') s1))) (rx_Y rt s))"

text \<open>
  \<^verbatim>\<open>datetime.strptime(s, "%Y-%m-%d %H:%M")\<close>: the first match is taken; it must leave
  nothing of the text over, and the groups, read by \<^verbatim>\<open>int()\<close>, must name a date of the
  calendar. \<open>None\<close> stands for the \<^verbatim>\<open>ValueError\<close> raised otherwise.
\<close>

definition strptime :: "runtime \<Rightarrow> string \<Rightarrow> datetime option" where
  "strptime rt s =
     (case rx_format rt s of
        [] \<Rightarrow> None
      | ((gY, gm, gd, gH, gM), rest) # _ \<Rightarrow>
          if rest \<noteq> [] then None
          else (case (py_int rt gY, py_int rt gm, py_int rt gd, py_int rt gH, py_int rt gM) of
                  (Some y, Some m, Some d, Some H, Some M) \<Rightarrow>
                    if valid_date (nat y) (nat m) (nat d)
                    then Some \<lparr>year = nat y, month = nat m, day = nat d,
                               hour = nat H, minute = nat M, second = 0\<rparr>
                    else None
                | _ \<Rightarrow> None))"

text \<open>\<^verbatim>\<open>_combine_fecha_hora\<close>: both parts are parsed together, joined by one space.\<close>

definition formatos_esperados :: string where
  "formatos_esperados =
     ''Fecha u hora inv'' @ [CHR 0xC3, CHR 0xA1] @
     ''lida. Formatos esperados: AAAA-MM-DD y HH:MM''"

definition combine_fecha_hora :: "runtime \<Rightarrow> string \<Rightarrow> string \<Rightarrow> error + string" where
  "combine_fecha_hora rt fecha hora =
     (case strptime rt (fecha @ '' '' @ hora) of
        None \<Rightarrow> Inl (ValueError formatos_esperados)
      | Some dt \<Rightarrow> Inr (strftime rt dt))"



text \<open>The order of two clock values up to the minute.\<close>

definition up_to_minute_le :: "datetime \<Rightarrow> datetime \<Rightarrow> bool" where
  "up_to_minute_le a b \<longleftrightarrow>
     year a < year b \<or> year a = year b \<and>
     (month a < month b \<or> month a = month b \<and>
     (day a < day b \<or> day a = day b \<and>
     (hour a < hour b \<or> hour a = hour b \<and> minute a \<le> minute b)))"

section \<open>The database\<close>

text \<open>
  The four tables that \<^verbatim>\<open>init_db\<close> creates. A table is the list of its rows in rowid
  order. \<^verbatim>\<open>clientes.notas\<close> and \<^verbatim>\<open>turnos.cliente_id\<close> are the nullable columns;
  \<^verbatim>\<open>settings\<close> has its key as primary key and is a map. The \<open>seq_\<close> fields are the
  rows of \<^verbatim>\<open>sqlite_sequence\<close> that AUTOINCREMENT keeps: the largest rowid each table ever
  held.
\<close>

record cliente_row =
  c_id :: int
  c_nombre :: string
  c_apellido :: string
  c_telefono_e164 :: string
  c_email :: string
  c_activo :: int
  c_notas :: "string option"
  c_created_at :: string
  c_updated_at :: string

record nota_row =
  n_id :: int
  n_cliente_id :: int
  n_contenido :: string
  n_created_at :: string

record turno_row =
  t_id :: int
  t_cliente_id :: "int option"
  t_inicio :: string
  t_motivo :: string
  t_created_at :: string

record db =
  tbl_clientes :: "cliente_row list"
  tbl_notas :: "nota_row list"
  tbl_turnos :: "turno_row list"
  tbl_settings :: "string \<rightharpoonup> string"
  seq_clientes :: int
  seq_notas :: int
  seq_turnos :: int

text \<open>
  A connection carries the per-connection setting \<^verbatim>\<open>PRAGMA foreign_keys\<close>, which SQLite
  turns off in every new connection. \<^verbatim>\<open>get_conn\<close> is \<^verbatim>\<open>sqlite3.connect(DB_PATH)\<close> with
  a row factory; it issues no PRAGMA.
\<close>

record connection =
  foreign_keys :: bool

definition sqlite3_connect :: connection where
  "sqlite3_connect = \<lparr>foreign_keys = False\<rparr>"

definition get_conn :: connection where
  "get_conn = sqlite3_connect"

text \<open>
  \<^verbatim>\<open>init_db\<close> opens a connection of its own, sets \<^verbatim>\<open>PRAGMA foreign_keys = ON\<close> on it
  and runs \<^verbatim>\<open>CREATE TABLE IF NOT EXISTS\<close> for each table: a database file without tables
  (\<open>None\<close>) gets the empty tables, an initialised one stays as it is. The result is the
  database together with that connection, which \<^verbatim>\<open>init_db\<close> drops when it returns.
\<close>

definition empty_db :: db where
  "empty_db = \<lparr>tbl_clientes = [], tbl_notas = [], tbl_turnos = [], tbl_settings = Map.empty,
     seq_clientes = 0, seq_notas = 0, seq_turnos = 0\<rparr>"

definition init_db_script :: "db option \<Rightarrow> db \<times> connection" where
  "init_db_script f =
     (let con = get_conn\<lparr>foreign_keys := True\<rparr>
      in (case f of None \<Rightarrow> empty_db | Some d \<Rightarrow> d, con))"

definition init_db :: "db option \<Rightarrow> db" where
  "init_db f = fst (init_db_script f)"

text \<open>
  A Python \<^verbatim>\<open>int\<close> bound to a statement parameter must fit SQLite's 64-bit INTEGER.
\<close>

definition sqlite_int :: "int \<Rightarrow> bool" where
  "sqlite_int i \<longleftrightarrow> - (2 ^ 63) \<le> i \<and> i < 2 ^ 63"

text \<open>
  The rowid AUTOINCREMENT gives a new row: one more than the largest the table holds or
  ever held; the insert fails with \<^verbatim>\<open>SQLITE_FULL\<close> once the largest rowid has been used.
\<close>

definition next_rowid :: "int \<Rightarrow> int list \<Rightarrow> error + int" where
  "next_rowid seq ids =
     (let m = fold max ids seq in
      if 2 ^ 63 - 1 \<le> m then Inl OperationalError else Inr (m + 1))"

section \<open>Customers\<close>

record Cliente =
  nombre :: string
  apellido :: string
  telefono_e164 :: string
  email :: string
  activo :: int
  notas :: string

text \<open>
  \<^verbatim>\<open>repo_add\<close>: one INSERT inside \<^verbatim>\<open>with get_conn() as con\<close>. Every function that
  writes returns its result, or the exception it raises, together with the database it
  leaves: a statement that fails is rolled back. The unique index
  \<^verbatim>\<open>ux_clientes_email\<close> refuses a row whose email another row has.
\<close>

definition repo_add :: "datetime \<Rightarrow> db \<Rightarrow> Cliente \<Rightarrow> (error + int) \<times> db" where
  "repo_add now d c =
     (let ts = isoformat now in
      if \<not> sqlite_int (activo c) then (Inl OverflowError, d)
      else case next_rowid (seq_clientes d) (map c_id (tbl_clientes d)) of
             Inl e \<Rightarrow> (Inl e, d)
           | Inr rid \<Rightarrow>
               if \<exists>r \<in> set (tbl_clientes d). c_email r = email c
               then (Inl IntegrityError, d)
               else (Inr rid,
                     d\<lparr>tbl_clientes := tbl_clientes d @
                          [\<lparr>c_id = rid, c_nombre = nombre c, c_apellido = apellido c,
                            c_telefono_e164 = telefono_e164 c, c_email = email c,
                            c_activo = activo c, c_notas = Some (notas c),
                            c_created_at = ts, c_updated_at = ts\<rparr>],
                       seq_clientes := rid\<rparr>))"

text \<open>
  \<^verbatim>\<open>repo_update_by_id\<close> and \<^verbatim>\<open>repo_update\<close> collect one \<^verbatim>\<open>column = ?\<close> for every
  argument that is not \<^verbatim>\<open>None\<close>, and \<^verbatim>\<open>updated_at = ?\<close> last. \<open>set_fields\<close> is the SET
  clause so assembled, applied to one row. (The arguments carry a prime where the name is a
  field of \<open>Cliente\<close>.)
\<close>

definition set_fields ::
  "string option \<Rightarrow> string option \<Rightarrow> string option \<Rightarrow> string option \<Rightarrow> bool option \<Rightarrow>
   string option \<Rightarrow> string \<Rightarrow> cliente_row \<Rightarrow> cliente_row" where
  "set_fields nombre' apellido' telefono_e164' email_nuevo activo' notas' ts r =
     (let r = (case nombre' of None \<Rightarrow> r | Some v \<Rightarrow> r\<lparr>c_nombre := v\<rparr>);
          r = (case apellido' of None \<Rightarrow> r | Some v \<Rightarrow> r\<lparr>c_apellido := v\<rparr>);
          r = (case telefono_e164' of None \<Rightarrow> r | Some v \<Rightarrow> r\<lparr>c_telefono_e164 := v\<rparr>);
          r = (case email_nuevo of None \<Rightarrow> r | Some v \<Rightarrow> r\<lparr>c_email := v\<rparr>);
          r = (case activo' of None \<Rightarrow> r | Some v \<Rightarrow> r\<lparr>c_activo := (if v then 1 else 0)\<rparr>);
          r = (case notas' of None \<Rightarrow> r | Some v \<Rightarrow> r\<lparr>c_notas := Some v\<rparr>)
      in r\<lparr>c_updated_at := ts\<rparr>)"

definition no_fields ::
  "string option \<Rightarrow> string option \<Rightarrow> string option \<Rightarrow> string option \<Rightarrow> bool option \<Rightarrow>
   string option \<Rightarrow> bool" where
  "no_fields nombre' apellido' telefono_e164' email_nuevo activo' notas' \<longleftrightarrow>
     nombre' = None \<and> apellido' = None \<and> telefono_e164' = None \<and> email_nuevo = None \<and>
     activo' = None \<and> notas' = None"

text \<open>
  \<^verbatim>\<open>UPDATE clientes SET ... WHERE <cond>\<close>: every row that meets the condition is
  rewritten. The unique index rejects the statement, and nothing is written, when a row
  whose email changes would share the new email with a row of another id. The result is
  \<^verbatim>\<open>cur.rowcount > 0\<close>.
\<close>

definition email_clash ::
  "(cliente_row \<Rightarrow> bool) \<Rightarrow> (cliente_row \<Rightarrow> cliente_row) \<Rightarrow> cliente_row list \<Rightarrow> bool" where
  "email_clash cond f rows \<longleftrightarrow>
     (\<exists>r \<in> set rows. cond r \<and> c_email (f r) \<noteq> c_email r \<and>
        (\<exists>r' \<in> set rows. c_id r' \<noteq> c_id r \<and>
           c_email (if cond r' then f r' else r') = c_email (f r)))"

definition update_clientes ::
  "(cliente_row \<Rightarrow> bool) \<Rightarrow> (cliente_row \<Rightarrow> cliente_row) \<Rightarrow> db \<Rightarrow> (error + bool) \<times> db" where
  "update_clientes cond f d =
     (if email_clash cond f (tbl_clientes d) then (Inl IntegrityError, d)
      else (Inr (\<exists>r \<in> set (tbl_clientes d). cond r),
            d\<lparr>tbl_clientes := map (\<lambda>r. if cond r then f r else r) (tbl_clientes d)\<rparr>))"

definition repo_update_by_id ::
  "datetime \<Rightarrow> db \<Rightarrow> int \<Rightarrow> string option \<Rightarrow> string option \<Rightarrow> string option \<Rightarrow>
   string option \<Rightarrow> bool option \<Rightarrow> string option \<Rightarrow> (error + bool) \<times> db" where
  "repo_update_by_id now d cliente_id nombre' apellido' telefono_e164' email_nuevo activo' notas' =
     (if no_fields nombre' apellido' telefono_e164' email_nuevo activo' notas' then (Inr False, d)
      else if \<not> sqlite_int cliente_id then (Inl OverflowError, d)
      else update_clientes (\<lambda>r. c_id r = cliente_id)
             (set_fields nombre' apellido' telefono_e164' email_nuevo activo' notas' (isoformat now)) d)"

definition repo_update ::
  "datetime \<Rightarrow> db \<Rightarrow> string \<Rightarrow> string option \<Rightarrow> string option \<Rightarrow> string option \<Rightarrow>
   string option \<Rightarrow> bool option \<Rightarrow> string option \<Rightarrow> (error + bool) \<times> db" where
  "repo_update now d email_original nombre' apellido' telefono_e164' email_nuevo activo' notas' =
     (if no_fields nombre' apellido' telefono_e164' email_nuevo activo' notas' then (Inr False, d)
      else update_clientes (\<lambda>r. c_email r = email_original)
             (set_fields nombre' apellido' telefono_e164' email_nuevo activo' notas' (isoformat now)) d)"

text \<open>
  \<^verbatim>\<open>DELETE FROM clientes WHERE <cond>\<close> on a connection. The foreign keys of \<^verbatim>\<open>notas\<close>
  (\<^verbatim>\<open>ON DELETE CASCADE\<close>) and \<^verbatim>\<open>turnos\<close> (\<^verbatim>\<open>ON DELETE SET NULL\<close>) act only when the
  connection has \<^verbatim>\<open>foreign_keys\<close> on.
\<close>

definition delete_clientes :: "connection \<Rightarrow> (cliente_row \<Rightarrow> bool) \<Rightarrow> db \<Rightarrow> (error + bool) \<times> db" where
  "delete_clientes con cond d =
     (let gone = map c_id (filter cond (tbl_clientes d));
          d1 = d\<lparr>tbl_clientes := filter (\<lambda>r. \<not> cond r) (tbl_clientes d)\<rparr>;
          d2 = (if foreign_keys con
                then d1\<lparr>tbl_notas := filter (\<lambda>n. n_cliente_id n \<notin> set gone) (tbl_notas d),
                        tbl_turnos := map (\<lambda>t. case t_cliente_id t of
                                                  None \<Rightarrow> t
                                                | Some k \<Rightarrow> if k \<in> set gone
                                                            then t\<lparr>t_cliente_id := None\<rparr> else t)
                                          (tbl_turnos d)\<rparr>
                else d1)
      in (Inr (gone \<noteq> []), d2))"

definition repo_delete_by_id :: "db \<Rightarrow> int \<Rightarrow> (error + bool) \<times> db" where
  "repo_delete_by_id d cliente_id =
     (if \<not> sqlite_int cliente_id then (Inl OverflowError, d)
      else delete_clientes get_conn (\<lambda>r. c_id r = cliente_id) d)"

definition repo_delete :: "db \<Rightarrow> string \<Rightarrow> (error + bool) \<times> db" where
  "repo_delete d email_addr = delete_clientes get_conn (\<lambda>r. c_email r = email_addr) d"

section \<open>Appointments\<close>

text \<open>
  \<^verbatim>\<open>repo_turnos_add\<close>: the start time stored is what \<^verbatim>\<open>_combine_fecha_hora\<close> returns,
  the reason is stored with surrounding whitespace removed, the creation timestamp is the
  clock. With \<^verbatim>\<open>foreign_keys\<close> on, a customer reference that names no customer is
  refused.
\<close>

definition insert_turno ::
  "connection \<Rightarrow> int option \<Rightarrow> string \<Rightarrow> string \<Rightarrow> string \<Rightarrow> db \<Rightarrow> (error + int) \<times> db" where
  "insert_turno con cliente_id inicio motivo ts d =
     (case next_rowid (seq_turnos d) (map t_id (tbl_turnos d)) of
        Inl e \<Rightarrow> (Inl e, d)
      | Inr rid \<Rightarrow>
          if foreign_keys con \<and>
             (case cliente_id of
                None \<Rightarrow> False
              | Some k \<Rightarrow> k \<notin> set (map c_id (tbl_clientes d)))
          then (Inl IntegrityError, d)
          else (Inr rid,
                d\<lparr>tbl_turnos := tbl_turnos d @
                     [\<lparr>t_id = rid, t_cliente_id = cliente_id, t_inicio = inicio,
                       t_motivo = motivo, t_created_at = ts\<rparr>],
                  seq_turnos := rid\<rparr>))"

definition repo_turnos_add ::
  "runtime \<Rightarrow> datetime \<Rightarrow> db \<Rightarrow> int option \<Rightarrow> string \<Rightarrow> string \<Rightarrow> string \<Rightarrow>
   (error + int) \<times> db" where
  "repo_turnos_add rt now d cliente_id fecha hora motivo =
     (case combine_fecha_hora rt fecha hora of
        Inl e \<Rightarrow> (Inl e, d)
      | Inr inicio \<Rightarrow>
          if \<not> (case cliente_id of None \<Rightarrow> True | Some k \<Rightarrow> sqlite_int k)
          then (Inl OverflowError, d)
          else insert_turno get_conn cliente_id inicio (strip motivo) (isoformat now) d)"

text \<open>
  A row of the listing: \<^verbatim>\<open>SELECT t.id, t.inicio, t.motivo, t.cliente_id, c.nombre,
  c.apellido, c.email FROM turnos t LEFT JOIN clientes c ON c.id = t.cliente_id\<close>. An
  appointment appears once for each customer row that matches, and once with the three
  customer columns NULL when none does.
\<close>

record turno_listing =
  l_id :: int
  l_inicio :: string
  l_motivo :: string
  l_cliente_id :: "int option"
  l_nombre :: "string option"
  l_apellido :: "string option"
  l_email :: "string option"

definition left_join_clientes :: "cliente_row list \<Rightarrow> turno_row \<Rightarrow> turno_listing list" where
  "left_join_clientes cs t =
     (case filter (\<lambda>c. Some (c_id c) = t_cliente_id t) cs of
        [] \<Rightarrow> [\<lparr>l_id = t_id t, l_inicio = t_inicio t, l_motivo = t_motivo t,
                l_cliente_id = t_cliente_id t, l_nombre = None, l_apellido = None,
                l_email = None\<rparr>]
      | ms \<Rightarrow> map (\<lambda>c. \<lparr>l_id = t_id t, l_inicio = t_inicio t, l_motivo = t_motivo t,
                        l_cliente_id = t_cliente_id t, l_nombre = Some (c_nombre c),
                        l_apellido = Some (c_apellido c), l_email = Some (c_email c)\<rparr>) ms)"

text \<open>
  \<^verbatim>\<open>repo_turnos_list\<close>: the reference time is the clock, written by \<^verbatim>\<open>strftime\<close>; TEXT
  is compared byte by byte. \<^verbatim>\<open>futuro is True\<close> keeps \<^verbatim>\<open>t.inicio >= now\<close> in ascending
  order, \<^verbatim>\<open>futuro is False\<close> keeps \<^verbatim>\<open>t.inicio < now\<close> in descending order, \<^verbatim>\<open>None\<close>
  keeps every row in ascending order.
\<close>

definition repo_turnos_list :: "runtime \<Rightarrow> datetime \<Rightarrow> db \<Rightarrow> bool option \<Rightarrow> turno_listing list" where
  "repo_turnos_list rt now d futuro =
     (let now_s = strftime rt now;
          joined = concat (map (left_join_clientes (tbl_clientes d)) (tbl_turnos d))
      in case futuro of
           Some True \<Rightarrow> sort_key l_inicio (filter (\<lambda>r. now_s \<le> l_inicio r) joined)
         | Some False \<Rightarrow> rev (sort_key l_inicio (filter (\<lambda>r. l_inicio r < now_s) joined))
         | None \<Rightarrow> sort_key l_inicio joined)"

text \<open>
  The columns that the listing takes from \<^verbatim>\<open>turnos\<close>, of a row of the listing and of a
  row of the table: by them the rows of a listing are compared with the appointments
  stored.
\<close>

definition listing_cols :: "turno_listing \<Rightarrow> int \<times> string \<times> string \<times> int option" where
  "listing_cols r = (l_id r, l_inicio r, l_motivo r, l_cliente_id r)"

definition turno_cols :: "turno_row \<Rightarrow> int \<times> string \<times> string \<times> int option" where
  "turno_cols t = (t_id t, t_inicio t, t_motivo t, t_cliente_id t)"

text \<open>
  \<^verbatim>\<open>UPDATE turnos SET cliente_id = ?, inicio = ?, motivo = ? WHERE id = ?\<close> on a
  connection; with \<^verbatim>\<open>foreign_keys\<close> on, a customer reference that names no customer is
  refused.
\<close>

definition update_turno ::
  "connection \<Rightarrow> int \<Rightarrow> int option \<Rightarrow> string \<Rightarrow> string \<Rightarrow> db \<Rightarrow> (error + bool) \<times> db" where
  "update_turno con turno_id cliente_id inicio motivo d =
     (let hit = (\<exists>t \<in> set (tbl_turnos d). t_id t = turno_id);
          orphan = (case cliente_id of
                      None \<Rightarrow> False
                    | Some k \<Rightarrow> k \<notin> set (map c_id (tbl_clientes d)))
      in if foreign_keys con \<and> hit \<and> orphan then (Inl IntegrityError, d)
         else (Inr hit,
               d\<lparr>tbl_turnos :=
                    map (\<lambda>t. if t_id t = turno_id
                             then t\<lparr>t_cliente_id := cliente_id, t_inicio := inicio,
                                    t_motivo := motivo\<rparr>
                             else t) (tbl_turnos d)\<rparr>))"

text \<open>
  \<^verbatim>\<open>repo_turnos_update\<close>: all of \<^verbatim>\<open>cliente_id\<close>, \<^verbatim>\<open>fecha\<close>, \<^verbatim>\<open>hora\<close> and \<^verbatim>\<open>motivo\<close>
  are required keyword arguments; \<^verbatim>\<open>cliente_id\<close> may be \<^verbatim>\<open>None\<close>, which is stored as
  NULL.
\<close>

definition repo_turnos_update ::
  "runtime \<Rightarrow> db \<Rightarrow> int \<Rightarrow> int option \<Rightarrow> string \<Rightarrow> string \<Rightarrow> string \<Rightarrow> (error + bool) \<times> db" where
  "repo_turnos_update rt d turno_id cliente_id fecha hora motivo =
     (case combine_fecha_hora rt fecha hora of
        Inl e \<Rightarrow> (Inl e, d)
      | Inr inicio \<Rightarrow>
          if \<not> (sqlite_int turno_id \<and>
                 (case cliente_id of None \<Rightarrow> True | Some k \<Rightarrow> sqlite_int k))
          then (Inl OverflowError, d)
          else update_turno get_conn turno_id cliente_id inicio (strip motivo) d)"

section \<open>Settings\<close>

text \<open>
  \<^verbatim>\<open>set_setting\<close> is an upsert; \<^verbatim>\<open>get_settings\<close> reads the table into a dictionary.
\<close>

definition set_setting :: "db \<Rightarrow> string \<Rightarrow> string \<Rightarrow> db" where
  "set_setting d k v = d\<lparr>tbl_settings := (tbl_settings d)(k \<mapsto> v)\<rparr>"

definition get_settings :: "db \<Rightarrow> (string \<rightharpoonup> string)" where
  "get_settings d = tbl_settings d"

text \<open>
  \<^verbatim>\<open>os.getenv(k, default)\<close> on the process environment, and \<^verbatim>\<open>s.get(k) or x\<close>: Python's
  \<^verbatim>\<open>or\<close> passes to its second operand when the first is \<^verbatim>\<open>None\<close> or the empty string.
\<close>

definition getenv :: "(string \<rightharpoonup> string) \<Rightarrow> string \<Rightarrow> string \<Rightarrow> string" where
  "getenv env k dflt = (case env k of None \<Rightarrow> dflt | Some v \<Rightarrow> v)"

definition py_or :: "string option \<Rightarrow> string \<Rightarrow> string" where
  "py_or a b = (case a of None \<Rightarrow> b | Some v \<Rightarrow> if v = [] then b else v)"

record smtp_config =
  cfg_host :: string
  cfg_port :: int
  cfg_user :: string
  cfg_password :: string
  cfg_from :: string

definition get_smtp_config :: "runtime \<Rightarrow> (string \<rightharpoonup> string) \<Rightarrow> db \<Rightarrow> error + smtp_config" where
  "get_smtp_config rt env d =
     (let s = get_settings d;
          host = py_or (s ''SMTP_HOST'') (getenv env ''SMTP_HOST'' '''');
          port_text = py_or (s ''SMTP_PORT'') (getenv env ''SMTP_PORT'' ''587'')
      in case py_int rt port_text of
           None \<Rightarrow> Inl (InvalidLiteral port_text)
         | Some port \<Rightarrow>
             Inr \<lparr>cfg_host = host, cfg_port = port,
                  cfg_user = py_or (s ''SMTP_USER'') (getenv env ''SMTP_USER'' ''''),
                  cfg_password = py_or (s ''SMTP_PASS'') (getenv env ''SMTP_PASS'' ''''),
                  cfg_from =
                    py_or (Some (py_or (s ''SMTP_FROM'')
                                   (getenv env ''SMTP_FROM'' (getenv env ''SMTP_USER'' ''''))))
                      ''no-reply@example.com''\<rparr>)"

section \<open>Phone numbers\<close>

text \<open>
  \<^verbatim>\<open>validar_y_normalizar_telefono\<close> calls the \<^verbatim>\<open>phonenumbers\<close> package, which is not
  part of the program. Its parser and its two validity tests are parameters here (the
  parser returns the message of its \<^verbatim>\<open>NumberParseException\<close> on the left).
\<close>

record phone_number =
  country_code :: nat
  national_number :: nat

record phonenumbers =
  parse :: "string \<Rightarrow> string \<Rightarrow> string + phone_number"
  is_valid_number :: "phone_number \<Rightarrow> bool"
  is_valid_number_for_region :: "phone_number \<Rightarrow> string \<Rightarrow> bool"

text \<open>
  Modelled from the spec: \<^verbatim>\<open>phonenumbers.format_number(num, PhoneNumberFormat.E164)\<close>
  is code of the \<^verbatim>\<open>phonenumbers\<close> package, absent from the sources. The specification
  gives its result as the international form "+<countrycode><digits>" (E.164): a leading
  plus sign, the country code and the subscriber number with no separators.
\<close>

definition format_number_E164 :: "phone_number \<Rightarrow> string" where
  "format_number_E164 num = ''+'' @ dec (country_code num) @ dec (national_number num)"

definition DEFAULT_REGION :: string where
  "DEFAULT_REGION = ''US''"

definition telefono_invalido :: string where
  "telefono_invalido = ''Tel'' @ [CHR 0xC3, CHR 0xA9] @ ''fono inv'' @ [CHR 0xC3, CHR 0xA1] @ ''lido''"

definition validar_y_normalizar_telefono :: "phonenumbers \<Rightarrow> string \<Rightarrow> string \<Rightarrow> error + string" where
  "validar_y_normalizar_telefono lib telefono region =
     (case parse lib telefono region of
        Inl e \<Rightarrow> Inl (ValueError (telefono_invalido @ '': '' @ e))
      | Inr num \<Rightarrow>
          if \<not> (is_valid_number lib num \<and> is_valid_number_for_region lib num region)
          then Inl (ValueError (telefono_invalido @ '' para la regi'' @ [CHR 0xC3, CHR 0xB3] @
                                ''n '' @ region @ ''.''))
          else Inr (format_number_E164 num))"

section \<open>Email addresses\<close>





section \<open>Sample data\<close>

text \<open>
  A runtime (the Arabic-Indic digits stand for its table), a clock and a small database,
  on which the theorems below are instantiated.
\<close>

definition cpython :: runtime where
  "cpython = \<lparr>nd_digits = map (\<lambda>n. ([CHR 0xD9, char_of (160 + n)], n)) [0 ..< 10],
              pad_year = False, int_max_str_digits = 4300\<rparr>"

definition reloj :: datetime where
  "reloj = \<lparr>year = 2024, month = 2, day = 10, hour = 17, minute = 45, second = 30\<rparr>"

definition ana :: cliente_row where
  "ana = \<lparr>c_id = 5, c_nombre = ''Ana'', c_apellido = ''Gomez'',
           c_telefono_e164 = ''+14155552671'', c_email = ''ana@example.com'', c_activo = 1,
           c_notas = Some '''', c_created_at = ''2024-01-02T09:00:00'',
           c_updated_at = ''2024-01-02T09:00:00''\<rparr>"

definition luis :: cliente_row where
  "luis = \<lparr>c_id = 7, c_nombre = ''Luis'', c_apellido = ''Paz'',
            c_telefono_e164 = ''+14155550100'', c_email = ''luis@example.com'', c_activo = 0,
            c_notas = None, c_created_at = ''2024-01-03T10:30:00'',
            c_updated_at = ''2024-01-04T08:15:00''\<rparr>"

definition agenda :: db where
  "agenda =
     \<lparr>tbl_clientes = [ana, luis],
      tbl_notas = [\<lparr>n_id = 1, n_cliente_id = 5, n_contenido = ''llamar'',
                    n_created_at = ''2024-01-05T12:00:00''\<rparr>,
                   \<lparr>n_id = 2, n_cliente_id = 7, n_contenido = ''moroso'',
                    n_created_at = ''2024-01-06T12:00:00''\<rparr>],
      tbl_turnos = [\<lparr>t_id = 1, t_cliente_id = Some 5, t_inicio = ''2024-03-01 10:00'',
                     t_motivo = ''control'', t_created_at = ''2024-01-05T12:01:00''\<rparr>,
                    \<lparr>t_id = 2, t_cliente_id = None, t_inicio = ''2024-01-15 08:30'',
                     t_motivo = ''inventario'', t_created_at = ''2024-01-05T12:02:00''\<rparr>,
                    \<lparr>t_id = 3, t_cliente_id = Some 7, t_inicio = ''2024-02-10 17:45'',
                     t_motivo = ''cobro'', t_created_at = ''2024-01-05T12:03:00''\<rparr>],
      tbl_settings = [''SMTP_HOST'' \<mapsto> '''', ''SMTP_USER'' \<mapsto> ''gestor''],
      seq_clientes = 7, seq_notas = 2, seq_turnos = 3\<rparr>"

text \<open>An environment that sets the mail host only, and a stand-in for the phone library.\<close>

definition entorno :: "string \<rightharpoonup> string" where
  "entorno = [''SMTP_HOST'' \<mapsto> ''smtp.example.org'']"

definition lib_demo :: phonenumbers where
  "lib_demo =
     \<lparr>parse = (\<lambda>telefono region.
                 if telefono = ''(415) 555-2671''
                 then Inr \<lparr>country_code = 1, national_number = 4155552671\<rparr>
                 else if telefono = ''+54 11 4321-0000''
                 then Inr \<lparr>country_code = 54, national_number = 1143210000\<rparr>
                 else Inl ''(1) The string supplied did not seem to be a phone number.''),
      is_valid_number = (\<lambda>num. country_code num = 1 \<or> country_code num = 54),
      is_valid_number_for_region =
        (\<lambda>num region. country_code num = 1 \<and> region = ''US'' \<or>
                       country_code num = 54 \<and> region = ''AR'')\<rparr>"



section \<open>Customer update: what it leaves alone\<close>

lemma isoformat_reloj: "isoformat reloj = ''2024-02-10T17:45:30''"
  by code_simp

text \<open>
  Claim C10. Called with no optional field, \<^verbatim>\<open>repo_update_by_id\<close> and \<^verbatim>\<open>repo_update\<close>
  return \<^verbatim>\<open>False\<close> and leave the whole database as it was, whatever it holds: the
  addressed row's \<^verbatim>\<open>updated_at\<close> is not refreshed, whether or not the row exists.
\<close>

theorem repo_update_no_fields:
  "repo_update_by_id now d cliente_id None None None None None None = (Inr False, d) \<and>
   repo_update now d email_original None None None None None None = (Inr False, d)"
  by (simp add: repo_update_by_id_def repo_update_def no_fields_def)

theorem repo_update_no_fields_witness:
  "ana \<in> set (tbl_clientes agenda) \<and> c_id ana = 5 \<and> c_email ana = ''ana@example.com'' \<and>
   repo_update_by_id reloj agenda 5 None None None None None None = (Inr False, agenda) \<and>
   repo_update reloj agenda ''ana@example.com'' None None None None None None =
     (Inr False, agenda)"
  using repo_update_no_fields [of reloj agenda 5 "''ana@example.com''"]
  by (simp add: agenda_def ana_def)

text \<open>
  Claim C4. An update by id that supplies only \<^verbatim>\<open>notas\<close> succeeds and reports whether
  the id names a row. Afterwards the tables of notes, appointments and settings and the
  rowid counters are as before; the customer table has the same rows in the same order;
  a row of another id is unchanged, and in the row of that id only \<^verbatim>\<open>notas\<close> (the new
  value) and \<^verbatim>\<open>updated_at\<close> (the clock) differ: id, first name, last name, phone, email,
  active flag and creation timestamp are kept.
\<close>

theorem repo_update_by_id_only_notas:
  assumes "sqlite_int cliente_id"
  shows "\<exists>d'. repo_update_by_id now d cliente_id None None None None None (Some v) =
           (Inr (\<exists>r \<in> set (tbl_clientes d). c_id r = cliente_id), d') \<and>
         tbl_notas d' = tbl_notas d \<and> tbl_turnos d' = tbl_turnos d \<and>
         tbl_settings d' = tbl_settings d \<and> seq_clientes d' = seq_clientes d \<and>
         seq_notas d' = seq_notas d \<and> seq_turnos d' = seq_turnos d \<and>
         length (tbl_clientes d') = length (tbl_clientes d) \<and>
         (\<forall>i < length (tbl_clientes d).
            let r = tbl_clientes d ! i; r' = tbl_clientes d' ! i in
              c_id r' = c_id r \<and> c_nombre r' = c_nombre r \<and> c_apellido r' = c_apellido r \<and>
              c_telefono_e164 r' = c_telefono_e164 r \<and> c_email r' = c_email r \<and>
              c_activo r' = c_activo r \<and> c_created_at r' = c_created_at r \<and>
              (if c_id r = cliente_id
               then c_notas r' = Some v \<and> c_updated_at r' = isoformat now
               else r' = r))"
  using assms
  by (simp add: repo_update_by_id_def no_fields_def update_clientes_def email_clash_def
      set_fields_def Let_def)

theorem repo_update_by_id_only_notas_witness:
  "sqlite_int 5 \<and>
   repo_update_by_id reloj agenda 5 None None None None None (Some ''VIP'') =
     (Inr True,
      agenda\<lparr>tbl_clientes :=
        [ana\<lparr>c_notas := Some ''VIP'', c_updated_at := ''2024-02-10T17:45:30''\<rparr>, luis]\<rparr>)"
proof -
  have five: "sqlite_int 5" by (simp add: sqlite_int_def)
  from repo_update_by_id_only_notas [OF five, of reloj agenda "''VIP''"]
  obtain d' where
    run: "repo_update_by_id reloj agenda 5 None None None None None (Some ''VIP'') =
            (Inr (\<exists>r \<in> set (tbl_clientes agenda). c_id r = 5), d')"
    by blast
  have "repo_update_by_id reloj agenda 5 None None None None None (Some ''VIP'') =
     (Inr True,
      agenda\<lparr>tbl_clientes :=
        [ana\<lparr>c_notas := Some ''VIP'', c_updated_at := ''2024-02-10T17:45:30''\<rparr>, luis]\<rparr>)"
    using five
    by (simp add: repo_update_by_id_def no_fields_def update_clientes_def email_clash_def
        set_fields_def isoformat_reloj agenda_def ana_def luis_def)
  with five run show ?thesis by simp
qed

section \<open>Unique emails\<close>

lemma filter_key_singleton:
  "distinct (map f xs) \<Longrightarrow> r \<in> set xs \<Longrightarrow> filter (\<lambda>x. f x = f r) xs = [r]"
proof (induction xs)
  case Nil
  then show ?case by simp
next
  case (Cons x xs)
  show ?case
  proof (cases "x = r")
    case True
    with Cons.prems have "\<forall>y \<in> set xs. f y \<noteq> f r" by (auto simp: image_iff)
    then have "filter (\<lambda>x. f x = f r) xs = []" by (simp add: filter_empty_conv)
    with True show ?thesis by simp
  next
    case False
    with Cons.prems have "r \<in> set xs" "f x \<noteq> f r" by (auto simp: image_iff)
    with Cons show ?thesis by simp
  qed
qed

lemma repo_add_refused:
  assumes "r \<in> set (tbl_clientes d)" and "c_email r = email c"
    and "sqlite_int (activo c)"
    and "fold max (map c_id (tbl_clientes d)) (seq_clientes d) < 2 ^ 63 - 1"
  shows "repo_add now d c = (Inl IntegrityError, d)"
  using assms by (auto simp: repo_add_def next_rowid_def Let_def)

text \<open>
  Claim C1. Take a database whose customer table obeys its unique index on
  \<^verbatim>\<open>email\<close> and has rowids left to give, and a row \<open>r\<close> of it. \<^verbatim>\<open>repo_add\<close> of a customer
  with the email of \<open>r\<close> raises \<^verbatim>\<open>sqlite3.IntegrityError\<close>, which is no \<^verbatim>\<open>ValueError\<close>;
  the database it leaves is the one it found, and the rows with that email are \<open>r\<close> alone.
\<close>

theorem repo_add_duplicate_email:
  assumes "r \<in> set (tbl_clientes d)" and "c_email r = email c"
    and "distinct (map c_email (tbl_clientes d))"
    and "sqlite_int (activo c)"
    and "fold max (map c_id (tbl_clientes d)) (seq_clientes d) < 2 ^ 63 - 1"
  shows "\<exists>d'. repo_add now d c = (Inl IntegrityError, d') \<and> d' = d \<and>
           filter (\<lambda>x. c_email x = email c) (tbl_clientes d') = [r] \<and>
           IntegrityError \<noteq> ValueError msg"
proof -
  have "filter (\<lambda>x. c_email x = c_email r) (tbl_clientes d) = [r]"
    using assms(1,3) by (rule filter_key_singleton [rotated])
  moreover have "repo_add now d c = (Inl IntegrityError, d)"
    using assms(1,2,4,5) by (rule repo_add_refused)
  ultimately show ?thesis using assms(2) by simp
qed

theorem repo_add_duplicate_email_witness:
  "ana \<in> set (tbl_clientes agenda) \<and>
   c_email ana = email \<lparr>nombre = ''Ana'', apellido = ''Gomez'', telefono_e164 = ''+14155552671'',
                         email = ''ana@example.com'', activo = 1, notas = ''''\<rparr> \<and>
   distinct (map c_email (tbl_clientes agenda)) \<and>
   fold max (map c_id (tbl_clientes agenda)) (seq_clientes agenda) < 2 ^ 63 - 1 \<and>
   repo_add reloj agenda \<lparr>nombre = ''Ana'', apellido = ''Gomez'',
       telefono_e164 = ''+14155552671'', email = ''ana@example.com'', activo = 1,
       notas = ''''\<rparr> = (Inl IntegrityError, agenda) \<and>
   filter (\<lambda>x. c_email x = ''ana@example.com'') (tbl_clientes agenda) = [ana]"
proof -
  let ?c = "\<lparr>nombre = ''Ana'', apellido = ''Gomez'', telefono_e164 = ''+14155552671'',
             email = ''ana@example.com'', activo = 1, notas = ''''\<rparr>"
  have h1: "ana \<in> set (tbl_clientes agenda)" by (simp add: agenda_def)
  have h2: "c_email ana = email ?c" by (simp add: ana_def)
  have h3: "distinct (map c_email (tbl_clientes agenda))"
    by (simp add: agenda_def ana_def luis_def)
  have h4: "sqlite_int (activo ?c)" by (simp add: sqlite_int_def)
  have h5: "fold max (map c_id (tbl_clientes agenda)) (seq_clientes agenda) < 2 ^ 63 - 1"
    by (simp add: agenda_def ana_def luis_def)
  from repo_add_duplicate_email [OF h1 h2 h3 h4 h5, of reloj]
  have "repo_add reloj agenda ?c = (Inl IntegrityError, agenda) \<and>
        filter (\<lambda>x. c_email x = email ?c) (tbl_clientes agenda) = [ana]"
    by blast
  with h1 h2 h3 h5 show ?thesis by simp
qed

lemma fold_max_fixed: "\<forall>x \<in> set xs. x \<le> s \<Longrightarrow> fold max xs s = (s :: int)"
  by (induction xs) (simp_all add: max_absorb2)

lemma fold_max_upper: "\<forall>x \<in> set xs. x \<le> fold max xs (s :: int)"
proof (induction xs arbitrary: s)
  case Nil
  then show ?case by simp
next
  case (Cons a xs)
  have "s' \<le> fold max xs s'" for s' :: int
    by (induction xs arbitrary: s') (simp, metis fold_simps(2) max.bounded_iff)
  then have "a \<le> fold max xs (max a s)" by (meson max.cobounded1 order_trans)
  with Cons show ?case by simp
qed

text \<open>
  The scenario of two inserts: when the first insert of a customer succeeds, a second
  insert with the same email fails and leaves the first insert's row as the only one
  with that email.
\<close>

lemma repo_add_twice:
  assumes "repo_add now d c = (Inr rid, d1)" and "email c' = email c"
    and "distinct (map c_email (tbl_clientes d))" and "sqlite_int (activo c')"
    and "rid < 2 ^ 63 - 1"
  shows "repo_add now' d1 c' = (Inl IntegrityError, d1) \<and>
         filter (\<lambda>x. c_email x = email c) (tbl_clientes d1) = [last (tbl_clientes d1)] \<and>
         c_id (last (tbl_clientes d1)) = rid \<and> c_email (last (tbl_clientes d1)) = email c"
proof -
  let ?row = "\<lparr>c_id = rid, c_nombre = nombre c, c_apellido = apellido c,
      c_telefono_e164 = telefono_e164 c, c_email = email c, c_activo = activo c,
      c_notas = Some (notas c), c_created_at = isoformat now, c_updated_at = isoformat now\<rparr>"
  from assms(1) have fresh: "\<forall>r \<in> set (tbl_clientes d). c_email r \<noteq> email c"
    and d1: "d1 = d\<lparr>tbl_clientes := tbl_clientes d @ [?row], seq_clientes := rid\<rparr>"
    and rid: "rid = fold max (map c_id (tbl_clientes d)) (seq_clientes d) + 1"
    by (auto simp: repo_add_def next_rowid_def Let_def split: if_splits)
  have dist: "distinct (map c_email (tbl_clientes d1))"
    using assms(3) fresh by (auto simp: d1)
  have "?row \<in> set (tbl_clientes d1)" "c_email ?row = email c'"
    using assms(2) by (simp_all add: d1)
  moreover have "fold max (map c_id (tbl_clientes d1)) (seq_clientes d1) < 2 ^ 63 - 1"
  proof -
    have "\<forall>x \<in> set (map c_id (tbl_clientes d)). x \<le> rid"
      using fold_max_upper [of "map c_id (tbl_clientes d)" "seq_clientes d"] rid by auto
    then have "fold max (map c_id (tbl_clientes d)) rid = rid" by (rule fold_max_fixed)
    with assms(5) show ?thesis by (simp add: d1)
  qed
  ultimately have "repo_add now' d1 c' = (Inl IntegrityError, d1)"
    using repo_add_refused [of ?row d1 c' now'] assms(4) by blast
  moreover have "filter (\<lambda>x. c_email x = c_email ?row) (tbl_clientes d1) = [?row]"
    using dist by (rule filter_key_singleton) (simp add: d1)
  ultimately show ?thesis by (simp add: d1)
qed

section \<open>Deleting a customer\<close>

text \<open>
  What \<^verbatim>\<open>repo_delete_by_id\<close> and \<^verbatim>\<open>repo_delete\<close> do: the customer rows that match are
  removed, every other table is left as it is, and the result tells whether a row was
  removed.
\<close>

lemma repo_delete_by_id_effect:
  "sqlite_int cliente_id \<Longrightarrow>
   repo_delete_by_id d cliente_id =
     (Inr (\<exists>r \<in> set (tbl_clientes d). c_id r = cliente_id),
      d\<lparr>tbl_clientes := filter (\<lambda>r. c_id r \<noteq> cliente_id) (tbl_clientes d)\<rparr>)"
  by (auto simp: repo_delete_by_id_def delete_clientes_def get_conn_def sqlite3_connect_def
      filter_empty_conv)

lemma repo_delete_effect:
  "repo_delete d e =
     (Inr (\<exists>r \<in> set (tbl_clientes d). c_email r = e),
      d\<lparr>tbl_clientes := filter (\<lambda>r. c_email r \<noteq> e) (tbl_clientes d)\<rparr>)"
  by (auto simp: repo_delete_def delete_clientes_def get_conn_def sqlite3_connect_def
      filter_empty_conv)

text \<open>
  On a connection with \<^verbatim>\<open>foreign_keys\<close> on, the same statement also removes the notes of
  the customer and sets the customer reference of its appointments to NULL, keeping the
  appointments.
\<close>

lemma delete_clientes_foreign_keys_on:
  assumes "foreign_keys con"
    and "delete_clientes con (\<lambda>r. c_id r = cliente_id) d = (res, d')"
  shows "res = Inr (\<exists>r \<in> set (tbl_clientes d). c_id r = cliente_id)"
    and "\<forall>r \<in> set (tbl_clientes d'). c_id r \<noteq> cliente_id"
    and "tbl_notas d' = filter (\<lambda>n. n_cliente_id n \<noteq> cliente_id) (tbl_notas d) \<or>
         (\<forall>r \<in> set (tbl_clientes d). c_id r \<noteq> cliente_id) \<and> tbl_notas d' = tbl_notas d"
    and "length (tbl_turnos d') = length (tbl_turnos d)"
    and "(\<exists>r \<in> set (tbl_clientes d). c_id r = cliente_id) \<Longrightarrow>
         \<forall>t \<in> set (tbl_turnos d'). t_cliente_id t \<noteq> Some cliente_id"
proof -
  let ?gone = "map c_id (filter (\<lambda>r. c_id r = cliente_id) (tbl_clientes d))"
  have gone: "set ?gone = (if \<exists>r \<in> set (tbl_clientes d). c_id r = cliente_id
                           then {cliente_id} else {})"
    by auto
  from assms show "res = Inr (\<exists>r \<in> set (tbl_clientes d). c_id r = cliente_id)"
    by (auto simp: delete_clientes_def Let_def filter_empty_conv)
  from assms show "\<forall>r \<in> set (tbl_clientes d'). c_id r \<noteq> cliente_id"
    by (auto simp: delete_clientes_def Let_def)
  from assms have n: "tbl_notas d' = filter (\<lambda>n. n_cliente_id n \<notin> set ?gone) (tbl_notas d)"
    by (auto simp: delete_clientes_def Let_def)
  show "tbl_notas d' = filter (\<lambda>n. n_cliente_id n \<noteq> cliente_id) (tbl_notas d) \<or>
         (\<forall>r \<in> set (tbl_clientes d). c_id r \<noteq> cliente_id) \<and> tbl_notas d' = tbl_notas d"
    unfolding n gone by auto
  from assms show "length (tbl_turnos d') = length (tbl_turnos d)"
    by (auto simp: delete_clientes_def Let_def)
  from assms have t: "tbl_turnos d' =
      map (\<lambda>t. case t_cliente_id t of None \<Rightarrow> t
                | Some k \<Rightarrow> if k \<in> set ?gone then t\<lparr>t_cliente_id := None\<rparr> else t) (tbl_turnos d)"
    by (auto simp: delete_clientes_def Let_def)
  show "\<forall>t \<in> set (tbl_turnos d'). t_cliente_id t \<noteq> Some cliente_id"
    if "\<exists>r \<in> set (tbl_clientes d). c_id r = cliente_id"
    unfolding t gone using that by (auto split: option.splits)
qed

text \<open>
  Claim C2, on the connection the program uses. \<^verbatim>\<open>init_db\<close> has run (and has set its
  PRAGMA on its own connection); customer 5 has a note and an appointment. Deleting
  customer 5 reports \<^verbatim>\<open>True\<close> and removes the customer row, but the note that refers to
  customer 5 is still stored and the appointment still refers to customer 5.
\<close>

theorem repo_delete_by_id_leaves_references:
  "init_db (Some agenda) = agenda \<and>
   fst (repo_delete_by_id agenda 5) = Inr True \<and>
   tbl_clientes (snd (repo_delete_by_id agenda 5)) = [luis] \<and>
   map n_cliente_id (tbl_notas (snd (repo_delete_by_id agenda 5))) = [5, 7] \<and>
   map t_cliente_id (tbl_turnos (snd (repo_delete_by_id agenda 5))) = [Some 5, None, Some 7] \<and>
   snd (repo_delete agenda ''ana@example.com'') = snd (repo_delete_by_id agenda 5)"
  by (simp add: init_db_def init_db_script_def repo_delete_by_id_def repo_delete_def
      delete_clientes_def get_conn_def sqlite3_connect_def sqlite_int_def agenda_def ana_def
      luis_def)

section \<open>Listing appointments\<close>

lemma filter_key_le1:
  "distinct (map f xs) \<Longrightarrow> length (filter (\<lambda>x. f x = a) xs) \<le> 1"
  by (induction xs) (auto simp: filter_empty_conv image_iff)

text \<open>With customer ids unique, the join yields each appointment exactly once.\<close>

lemma left_join_one:
  assumes "distinct (map c_id cs)"
  shows "map listing_cols (left_join_clientes cs t) = [turno_cols t]"
proof -
  have one: "length (filter (\<lambda>c. c_id c = k) cs) \<le> 1" for k
    using assms by (rule filter_key_le1)
  have le: "length (filter (\<lambda>c. Some (c_id c) = t_cliente_id t) cs) \<le> 1"
  proof (cases "t_cliente_id t")
    case None
    then show ?thesis by simp
  next
    case (Some k)
    have "(\<lambda>c. Some (c_id c) = Some k) = (\<lambda>c. c_id c = k)" by auto
    with Some one [of k] show ?thesis by simp
  qed
  show ?thesis
  proof (cases "filter (\<lambda>c. Some (c_id c) = t_cliente_id t) cs")
    case Nil
    then show ?thesis by (simp add: left_join_clientes_def listing_cols_def turno_cols_def)
  next
    case (Cons m ms)
    with le have "ms = []" by simp
    with Cons show ?thesis by (simp add: left_join_clientes_def listing_cols_def turno_cols_def)
  qed
qed

lemma joined_cols:
  assumes "distinct (map c_id cs)"
  shows "map listing_cols (concat (map (left_join_clientes cs) ts)) = map turno_cols ts"
  using left_join_one [OF assms] by (induction ts) simp_all

lemma l_inicio_cols: "l_inicio r = fst (snd (listing_cols r))"
  by (simp add: listing_cols_def)

lemma t_inicio_cols: "t_inicio t = fst (snd (turno_cols t))"
  by (simp add: turno_cols_def)

lemma filtered_cols:
  assumes "map listing_cols js = map turno_cols ts"
  shows "map listing_cols (filter (\<lambda>r. P (l_inicio r)) js) =
         map turno_cols (filter (\<lambda>t. P (t_inicio t)) ts)"
proof -
  have "map listing_cols (filter (\<lambda>r. P (l_inicio r)) js)
      = filter (\<lambda>x. P (fst (snd x))) (map listing_cols js)"
    by (simp add: filter_map o_def l_inicio_cols)
  also have "\<dots> = filter (\<lambda>x. P (fst (snd x))) (map turno_cols ts)" by (simp add: assms)
  also have "\<dots> = map turno_cols (filter (\<lambda>t. P (t_inicio t)) ts)"
    by (simp add: filter_map o_def t_inicio_cols)
  finally show ?thesis .
qed

text \<open>
  The listing as the database computes it. Let \<open>T\<close> be the clock as
  \<^verbatim>\<open>repo_turnos_list\<close> writes it, and let customer ids be unique (the primary key). With
  \<^verbatim>\<open>futuro = True\<close> the listing holds exactly the appointments whose \<^verbatim>\<open>inicio\<close>, as
  TEXT, is at least \<open>T\<close>, each once, in ascending order of that text; with
  \<^verbatim>\<open>futuro = False\<close> exactly those whose \<^verbatim>\<open>inicio\<close> is below \<open>T\<close>, in descending
  order; with no filter all of them, in ascending order.
\<close>

theorem repo_turnos_list_filter_order:
  assumes "distinct (map c_id (tbl_clientes d))"
  shows "mset (map listing_cols (repo_turnos_list rt now d (Some True))) =
           mset (map turno_cols (filter (\<lambda>t. strftime rt now \<le> t_inicio t) (tbl_turnos d))) \<and>
         sorted (map l_inicio (repo_turnos_list rt now d (Some True))) \<and>
         mset (map listing_cols (repo_turnos_list rt now d (Some False))) =
           mset (map turno_cols (filter (\<lambda>t. t_inicio t < strftime rt now) (tbl_turnos d))) \<and>
         sorted (rev (map l_inicio (repo_turnos_list rt now d (Some False)))) \<and>
         mset (map listing_cols (repo_turnos_list rt now d None)) =
           mset (map turno_cols (tbl_turnos d)) \<and>
         sorted (map l_inicio (repo_turnos_list rt now d None))"
proof -
  let ?js = "concat (map (left_join_clientes (tbl_clientes d)) (tbl_turnos d))"
  have cols: "map listing_cols ?js = map turno_cols (tbl_turnos d)"
    using assms by (rule joined_cols)
  have m: "mset (map listing_cols (sort_key l_inicio xs)) = mset (map listing_cols xs)" for xs
    by (metis mset_map mset_sort)
  have m': "mset (map listing_cols (rev (sort_key l_inicio xs))) = mset (map listing_cols xs)"
    for xs
    by (metis mset_map mset_sort mset_rev)
  have "mset (map listing_cols (repo_turnos_list rt now d (Some True))) =
          mset (map listing_cols (filter (\<lambda>r. strftime rt now \<le> l_inicio r) ?js))"
    unfolding repo_turnos_list_def Let_def by (simp only: option.case bool.case if_True m)
  also have "\<dots> =
      mset (map turno_cols (filter (\<lambda>t. strftime rt now \<le> t_inicio t) (tbl_turnos d)))"
    by (simp only: filtered_cols [OF cols, of "\<lambda>s. strftime rt now \<le> s"])
  finally have fut: "mset (map listing_cols (repo_turnos_list rt now d (Some True))) =
      mset (map turno_cols (filter (\<lambda>t. strftime rt now \<le> t_inicio t) (tbl_turnos d)))" .
  have "mset (map listing_cols (repo_turnos_list rt now d (Some False))) =
          mset (map listing_cols (filter (\<lambda>r. l_inicio r < strftime rt now) ?js))"
    unfolding repo_turnos_list_def Let_def by (simp only: option.case bool.case if_False m')
  also have "\<dots> =
      mset (map turno_cols (filter (\<lambda>t. t_inicio t < strftime rt now) (tbl_turnos d)))"
    by (simp only: filtered_cols [OF cols, of "\<lambda>s. s < strftime rt now"])
  finally have past: "mset (map listing_cols (repo_turnos_list rt now d (Some False))) =
      mset (map turno_cols (filter (\<lambda>t. t_inicio t < strftime rt now) (tbl_turnos d)))" .
  have "mset (map listing_cols (repo_turnos_list rt now d None)) = mset (map listing_cols ?js)"
    unfolding repo_turnos_list_def Let_def by (simp only: option.case m)
  also have "\<dots> = mset (map turno_cols (tbl_turnos d))"
    by (simp only: cols)
  finally have all: "mset (map listing_cols (repo_turnos_list rt now d None)) =
      mset (map turno_cols (tbl_turnos d))" .
  have "sorted (map l_inicio (repo_turnos_list rt now d (Some True)))"
    "sorted (rev (map l_inicio (repo_turnos_list rt now d (Some False))))"
    "sorted (map l_inicio (repo_turnos_list rt now d None))"
    by (simp_all add: repo_turnos_list_def rev_map [symmetric])
  with fut past all show ?thesis by blast
qed

lemma turnos_list_agenda:
  "strftime cpython reloj = ''2024-02-10 17:45''"
  "map l_id (repo_turnos_list cpython reloj agenda (Some True)) = [3, 1]"
  "map l_id (repo_turnos_list cpython reloj agenda (Some False)) = [2]"
  "map l_id (repo_turnos_list cpython reloj agenda None) = [2, 3, 1]"
  by code_simp+

theorem repo_turnos_list_filter_order_witness:
  "distinct (map c_id (tbl_clientes agenda)) \<and>
   sorted (map l_inicio (repo_turnos_list cpython reloj agenda (Some True))) \<and>
   sorted (rev (map l_inicio (repo_turnos_list cpython reloj agenda (Some False)))) \<and>
   sorted (map l_inicio (repo_turnos_list cpython reloj agenda None)) \<and>
   map l_id (repo_turnos_list cpython reloj agenda (Some True)) = [3, 1] \<and>
   map l_id (repo_turnos_list cpython reloj agenda (Some False)) = [2] \<and>
   map l_id (repo_turnos_list cpython reloj agenda None) = [2, 3, 1]"
proof -
  have h: "distinct (map c_id (tbl_clientes agenda))"
    by (simp add: agenda_def ana_def luis_def)
  from repo_turnos_list_filter_order [OF h, of cpython reloj]
  have "sorted (map l_inicio (repo_turnos_list cpython reloj agenda (Some True)))"
    "sorted (rev (map l_inicio (repo_turnos_list cpython reloj agenda (Some False))))"
    "sorted (map l_inicio (repo_turnos_list cpython reloj agenda None))"
    by blast+
  with h turnos_list_agenda(2-4) show ?thesis by blast
qed

section \<open>Decimal writing and the pattern on well-formed text\<close>

lemma of_char_digit: "n < 10 \<Longrightarrow> (of_char (digit_char n) :: nat) = 48 + n"
  by (simp add: digit_char_def)

lemma digit_char_eq: "n < 10 \<Longrightarrow> (digit_char n = c) = ((of_char c :: nat) = 48 + n)"
  using of_char_digit [of n] by (metis of_char_eq_iff)

lemma digit_char_0: "digit_char 0 = CHR ''0''"
  by (simp add: digit_char_eq)

lemma dec_small: "n < 10 \<Longrightarrow> dec n = [digit_char n]"
  by (simp add: dec.simps)

lemma dec_step: "10 \<le> n \<Longrightarrow> dec n = dec (n div 10) @ [digit_char (n mod 10)]"
  by (simp add: dec.simps)

lemma dec2: "10 \<le> n \<Longrightarrow> n < 100 \<Longrightarrow> dec n = [digit_char (n div 10), digit_char (n mod 10)]"
  by (simp add: dec_step dec_small)

lemma dec3: "100 \<le> n \<Longrightarrow> n < 1000 \<Longrightarrow>
  dec n = [digit_char (n div 100), digit_char (n div 10 mod 10), digit_char (n mod 10)]"
  by (simp add: dec_step [of n] dec2 div_mult2_eq [symmetric])

lemma dec4: "1000 \<le> n \<Longrightarrow> n < 10000 \<Longrightarrow>
  dec n = [digit_char (n div 1000), digit_char (n div 100 mod 10), digit_char (n div 10 mod 10),
           digit_char (n mod 10)]"
proof -
  assume a: "1000 \<le> n" "n < 10000"
  then have b: "100 \<le> n div 10" "n div 10 < 1000" by simp_all
  have "n div 10 div 100 = n div 1000" "n div 10 div 10 = n div 100"
    by (simp_all add: div_mult2_eq [symmetric])
  with a dec3 [OF b] show ?thesis by (simp add: dec_step [of n])
qed

lemma replicate_23: "replicate 2 x = [x, x]" "replicate 3 x = [x, x, x]"
  by (simp_all add: numeral_2_eq_2 numeral_3_eq_3)

lemma zpad2: "n < 100 \<Longrightarrow> zpad 2 n = [digit_char (n div 10), digit_char (n mod 10)]"
  by (cases "n < 10") (simp_all add: zpad_def dec_small dec2 digit_char_0)

lemma zpad4: "n < 10000 \<Longrightarrow>
  zpad 4 n = [digit_char (n div 1000), digit_char (n div 100 mod 10),
              digit_char (n div 10 mod 10), digit_char (n mod 10)]"
proof -
  assume "n < 10000"
  then consider "n < 10" | "10 \<le> n" "n < 100" | "100 \<le> n" "n < 1000" | "1000 \<le> n" "n < 10000"
    by linarith
  then show ?thesis
  proof cases
    case 1
    then show ?thesis by (simp add: zpad_def dec_small replicate_23 digit_char_0)
  next
    case 2
    then show ?thesis by (simp add: zpad_def dec2 replicate_23 digit_char_0)
  next
    case 3
    then show ?thesis by (simp add: zpad_def dec3 digit_char_0)
  next
    case 4
    then show ?thesis by (simp add: zpad_def dec4)
  qed
qed


lemma digit_at_digit: "n < 10 \<Longrightarrow> digit_at rt (digit_char n # s) = Some (n, s)"
  by (simp add: digit_at_def of_char_digit less_eq_char_def)














lemma int_lstrip_digit: "n < 10 \<Longrightarrow> int_lstrip (digit_char n # s) = digit_char n # s"
  by (simp add: int_lstrip.simps [of "digit_char n # s"] int_space_len_def of_char_digit digit_char_eq)

lemma int_rstrip_digit: "n < 10 \<Longrightarrow> int_rstrip (s @ [digit_char n]) = s @ [digit_char n]"
  by (simp add: int_rstrip.simps [of "s @ [digit_char n]"] int_space_len_end_def of_char_digit
      digit_char_eq)

lemma digits_to_end_digits:
  "ns \<noteq> [] \<Longrightarrow> \<forall>n \<in> set ns. n < 10 \<Longrightarrow> digits_to_end rt (map digit_char ns) = Some ns"
proof (induction ns)
  case Nil
  then show ?case by simp
next
  case (Cons n ns)
  show ?case
  proof (cases ns)
    case Nil
    with Cons.prems show ?thesis
      by (simp add: digits_to_end.simps [of rt "[digit_char n]"] digit_at_digit)
  next
    case (Cons k ks)
    with Cons.prems Cons.IH show ?thesis
      by (simp add: digits_to_end.simps [of rt "digit_char n # digit_char k # map digit_char ks"] digit_at_digit
          digit_char_eq)
  qed
qed

lemma py_int_digits:
  assumes "ns \<noteq> []" "\<forall>n \<in> set ns. n < 10" "length ns \<le> 640"
  shows "py_int rt (map digit_char ns) = Some (int (foldl (\<lambda>a v. 10 * a + v) 0 ns))"
proof -
  obtain n ks where ns: "ns = n # ks" using assms(1) by (cases ns) auto
  obtain ms l where sn: "ns = ms @ [l]" using assms(1) by (cases ns rule: rev_cases) auto
  have l: "int_lstrip (map digit_char ns) = map digit_char ns"
    using assms(2) by (simp add: ns int_lstrip_digit)
  have r: "int_rstrip (map digit_char ns) = map digit_char ns"
    using assms(2) int_rstrip_digit [of l "map digit_char ms"] by (simp add: sn)
  have h: "hd (map digit_char ns) \<noteq> CHR ''-''" "hd (map digit_char ns) \<noteq> CHR ''+''"
    using assms(2) by (simp_all add: ns digit_char_eq)
  show ?thesis
    using assms digits_to_end_digits [of ns rt] h
    by (simp add: py_int_def l r Let_def)
qed









section \<open>Combining a date and a time\<close>

lemma digit_char_numeral:
  "digit_char 0 = CHR ''0''" "digit_char 1 = CHR ''1''" "digit_char (Suc 0) = CHR ''1''"
  "digit_char 2 = CHR ''2''" "digit_char 3 = CHR ''3''" "digit_char 4 = CHR ''4''"
  "digit_char 5 = CHR ''5''" "digit_char 6 = CHR ''6''" "digit_char 7 = CHR ''7''"
  "digit_char 8 = CHR ''8''" "digit_char 9 = CHR ''9''"
  by (simp_all add: digit_char_eq)

lemma digits_value:
  fixes y q1 q2 q3 r1 r2 r3 :: nat
  shows "y = 10 * q1 + r1 \<Longrightarrow> q1 = 10 * q2 + r2 \<Longrightarrow> q2 = 10 * q3 + r3 \<Longrightarrow>
         10 * (10 * (10 * q3 + r3) + r2) + r1 = y"
  by simp

lemma digits4_value:
  "10 * (10 * (10 * (y div 1000) + y div 100 mod 10) + y div 10 mod 10) + y mod 10 = (y :: nat)"
proof -
  have a: "y div 10 div 10 = y div 100" "y div 100 div 10 = y div 1000"
    by (simp_all add: div_mult2_eq [symmetric])
  have "y = 10 * (y div 10) + y mod 10" by simp
  moreover have "y div 10 = 10 * (y div 100) + y div 10 mod 10"
    using div_mult_mod_eq [of "y div 10" 10] a(1) by (simp add: mult.commute)
  moreover have "y div 100 = 10 * (y div 1000) + y div 100 mod 10"
    using div_mult_mod_eq [of "y div 100" 10] a(2) by (simp add: mult.commute)
  ultimately show ?thesis by (rule digits_value)
qed









section \<open>Updating an appointment\<close>

lemma turnos_update_agenda:
  "combine_fecha_hora cpython ''2024-02-11'' ''09:30'' = Inr ''2024-02-11 09:30''"
  "map t_id (tbl_turnos agenda) = [1, 2, 3]"
  "map t_cliente_id (tbl_turnos agenda) = [Some 5, None, Some 7]"
  "map t_cliente_id
     (tbl_turnos (snd (repo_turnos_update cpython agenda 3 (Some 5) ''2024-02-11'' ''09:30''
        ''  cobro  ''))) = [Some 5, None, Some 5]"
  "map t_inicio
     (tbl_turnos (snd (repo_turnos_update cpython agenda 3 (Some 5) ''2024-02-11'' ''09:30''
        ''  cobro  ''))) = [''2024-03-01 10:00'', ''2024-01-15 08:30'', ''2024-02-11 09:30'']"
  "map t_motivo
     (tbl_turnos (snd (repo_turnos_update cpython agenda 3 (Some 5) ''2024-02-11'' ''09:30''
        ''  cobro  ''))) = [''control'', ''inventario'', ''cobro'']"
  by code_simp+

text \<open>
  Claim C6 as stated fails: appointment 1 refers to customer 5; an update that gives no
  customer (\<^verbatim>\<open>cliente_id=None\<close>) does not keep the stored reference but stores NULL.
\<close>

theorem repo_turnos_update_overwrites:
  "map t_id (tbl_turnos agenda) = [1, 2, 3] \<and>
   map t_cliente_id (tbl_turnos agenda) = [Some 5, None, Some 7] \<and>
   fst (repo_turnos_update cpython agenda 1 None ''2024-03-01'' ''10:00'' ''control'') =
     Inr True \<and>
   map t_cliente_id
     (tbl_turnos (snd (repo_turnos_update cpython agenda 1 None ''2024-03-01'' ''10:00''
        ''control''))) = [None, None, Some 7]"
  by code_simp

text \<open>
  Claim C6 as amended. \<^verbatim>\<open>repo_turnos_update\<close> takes the customer reference, the date,
  the time and the reason, all of them required. When date and time do not combine, it
  raises the error of \<^verbatim>\<open>_combine_fecha_hora\<close> and the database stays as it was.
  Otherwise it reports whether the id names an appointment; the addressed appointment
  gets the customer reference given (NULL for \<^verbatim>\<open>None\<close>), the combined start time and the
  reason with surrounding whitespace removed, and keeps its id and creation timestamp;
  every other appointment and every other table is unchanged.
\<close>

theorem repo_turnos_update_replaces:
  assumes "sqlite_int turno_id" and "case cliente_id of None \<Rightarrow> True | Some k \<Rightarrow> sqlite_int k"
  shows "case combine_fecha_hora rt fecha hora of
           Inl e \<Rightarrow> repo_turnos_update rt d turno_id cliente_id fecha hora motivo = (Inl e, d)
         | Inr inicio \<Rightarrow>
             (\<exists>d'. repo_turnos_update rt d turno_id cliente_id fecha hora motivo =
                     (Inr (\<exists>t \<in> set (tbl_turnos d). t_id t = turno_id), d') \<and>
                tbl_clientes d' = tbl_clientes d \<and> tbl_notas d' = tbl_notas d \<and>
                tbl_settings d' = tbl_settings d \<and> seq_clientes d' = seq_clientes d \<and>
                seq_notas d' = seq_notas d \<and> seq_turnos d' = seq_turnos d \<and>
                length (tbl_turnos d') = length (tbl_turnos d) \<and>
                (\<forall>i < length (tbl_turnos d).
                   let t = tbl_turnos d ! i; t' = tbl_turnos d' ! i in
                     t_id t' = t_id t \<and> t_created_at t' = t_created_at t \<and>
                     (if t_id t = turno_id
                      then t_cliente_id t' = cliente_id \<and> t_inicio t' = inicio \<and>
                           t_motivo t' = strip motivo
                      else t' = t)))"
  using assms
  by (simp add: repo_turnos_update_def update_turno_def get_conn_def sqlite3_connect_def Let_def
      split: sum.splits)

theorem repo_turnos_update_replaces_witness:
  "sqlite_int 3 \<and> sqlite_int 5 \<and>
   fst (repo_turnos_update cpython agenda 3 (Some 5) ''2024-02-11'' ''09:30'' ''  cobro  '') =
     Inr True \<and>
   map t_cliente_id
     (tbl_turnos (snd (repo_turnos_update cpython agenda 3 (Some 5) ''2024-02-11'' ''09:30''
        ''  cobro  ''))) = [Some 5, None, Some 5] \<and>
   map t_inicio
     (tbl_turnos (snd (repo_turnos_update cpython agenda 3 (Some 5) ''2024-02-11'' ''09:30''
        ''  cobro  ''))) = [''2024-03-01 10:00'', ''2024-01-15 08:30'', ''2024-02-11 09:30''] \<and>
   map t_motivo
     (tbl_turnos (snd (repo_turnos_update cpython agenda 3 (Some 5) ''2024-02-11'' ''09:30''
        ''  cobro  ''))) = [''control'', ''inventario'', ''cobro'']"
proof -
  have h1: "sqlite_int 3" and h5: "sqlite_int 5" by (simp_all add: sqlite_int_def)
  have h2: "case Some 5 of None \<Rightarrow> True | Some k \<Rightarrow> sqlite_int k" using h5 by simp
  have hit: "\<exists>t \<in> set (tbl_turnos agenda). t_id t = 3" by (simp add: agenda_def)
  from repo_turnos_update_replaces [OF h1 h2, where rt = cpython and fecha = "''2024-02-11''"
      and hora = "''09:30''" and d = agenda and motivo = "''  cobro  ''"]
  have "fst (repo_turnos_update cpython agenda 3 (Some 5) ''2024-02-11'' ''09:30''
           ''  cobro  '') = Inr True"
    using hit by (auto simp: turnos_update_agenda(1))
  with h1 h5 turnos_update_agenda(4-6) show ?thesis by blast
qed

section \<open>Mail-delivery configuration\<close>

lemma py_int_587: "py_int rt ''587'' = Some 587"
  using py_int_digits [of "[5, 8, 7]" rt] by (simp add: digit_char_numeral)

lemma smtp_config_agenda:
  "get_smtp_config cpython entorno agenda =
     Inr \<lparr>cfg_host = ''smtp.example.org'', cfg_port = 587, cfg_user = ''gestor'',
          cfg_password = [], cfg_from = ''no-reply@example.com''\<rparr>"
  "get_smtp_config cpython Map.empty agenda =
     Inr \<lparr>cfg_host = [], cfg_port = 587, cfg_user = ''gestor'',
          cfg_password = [], cfg_from = ''no-reply@example.com''\<rparr>"
  by (simp_all add: get_smtp_config_def get_settings_def py_or_def getenv_def agenda_def
      entorno_def py_int_587)

text \<open>\<^verbatim>\<open>set_setting\<close> replaces the value of its key and no other.\<close>

lemma set_setting_upsert:
  "get_settings (set_setting d k v) k = Some v"
  "k' \<noteq> k \<Longrightarrow> get_settings (set_setting d k v) k' = get_settings d k'"
  by (simp_all add: set_setting_def get_settings_def)

text \<open>With nothing stored and nothing in the environment, only the defaults remain.\<close>

lemma get_smtp_config_defaults:
  "get_smtp_config rt Map.empty empty_db =
     Inr \<lparr>cfg_host = [], cfg_port = 587, cfg_user = [], cfg_password = [],
          cfg_from = ''no-reply@example.com''\<rparr>"
  by (simp add: get_smtp_config_def get_settings_def py_or_def getenv_def empty_db_def
      py_int_587)

text \<open>
  The port is read by \<^verbatim>\<open>int()\<close>; the function returns a configuration exactly when the
  text chosen for the port is an integer literal, and raises the \<^verbatim>\<open>ValueError\<close> of
  \<^verbatim>\<open>int()\<close> otherwise.
\<close>

lemma get_smtp_config_returns:
  "(\<exists>c. get_smtp_config rt env d = Inr c) \<longleftrightarrow>
   py_int rt (py_or (tbl_settings d ''SMTP_PORT'') (getenv env ''SMTP_PORT'' ''587'')) \<noteq> None"
  by (auto simp: get_smtp_config_def get_settings_def Let_def split: option.splits)

text \<open>
  Claim C7 as stated fails: the setting \<^verbatim>\<open>SMTP_HOST\<close> is stored (as the empty string, as
  the settings form stores a field left blank), and the host of the configuration is
  still taken from the environment variable: it changes with the environment.
\<close>

theorem get_smtp_config_reads_env:
  "tbl_settings agenda ''SMTP_HOST'' = Some [] \<and>
   entorno ''SMTP_HOST'' = Some ''smtp.example.org'' \<and>
   get_smtp_config cpython entorno agenda =
     Inr \<lparr>cfg_host = ''smtp.example.org'', cfg_port = 587, cfg_user = ''gestor'',
          cfg_password = [], cfg_from = ''no-reply@example.com''\<rparr> \<and>
   get_smtp_config cpython Map.empty agenda =
     Inr \<lparr>cfg_host = [], cfg_port = 587, cfg_user = ''gestor'',
          cfg_password = [], cfg_from = ''no-reply@example.com''\<rparr>"
  by (simp add: smtp_config_agenda) (simp add: agenda_def entorno_def)

text \<open>
  Claim C7 as amended. Whenever \<^verbatim>\<open>get_smtp_config\<close> returns a configuration: host, user
  and password are the stored setting when one is stored and is not empty; when it is
  missing or empty they are the environment variable of the same name, or the empty string
  when that is unset. The port is the integer written by the stored \<^verbatim>\<open>SMTP_PORT\<close> when
  that is stored and not empty, else by the environment variable, else 587. The
  from-address is the stored \<^verbatim>\<open>SMTP_FROM\<close> when stored and not empty; else the environment
  variable \<^verbatim>\<open>SMTP_FROM\<close>, or \<^verbatim>\<open>SMTP_USER\<close> of the environment when that is unset; and
  \<^verbatim>\<open>no-reply@example.com\<close> when all that gives the empty string.
\<close>

theorem get_smtp_config_layers:
  assumes "get_smtp_config rt env d = Inr c"
  shows
    "(\<forall>v. tbl_settings d ''SMTP_HOST'' = Some v \<and> v \<noteq> [] \<longrightarrow> cfg_host c = v) \<and>
     (tbl_settings d ''SMTP_HOST'' \<in> {None, Some []} \<longrightarrow>
        cfg_host c = (case env ''SMTP_HOST'' of None \<Rightarrow> [] | Some e \<Rightarrow> e)) \<and>
     (\<forall>v. tbl_settings d ''SMTP_USER'' = Some v \<and> v \<noteq> [] \<longrightarrow> cfg_user c = v) \<and>
     (tbl_settings d ''SMTP_USER'' \<in> {None, Some []} \<longrightarrow>
        cfg_user c = (case env ''SMTP_USER'' of None \<Rightarrow> [] | Some e \<Rightarrow> e)) \<and>
     (\<forall>v. tbl_settings d ''SMTP_PASS'' = Some v \<and> v \<noteq> [] \<longrightarrow> cfg_password c = v) \<and>
     (tbl_settings d ''SMTP_PASS'' \<in> {None, Some []} \<longrightarrow>
        cfg_password c = (case env ''SMTP_PASS'' of None \<Rightarrow> [] | Some e \<Rightarrow> e)) \<and>
     (\<forall>v. tbl_settings d ''SMTP_PORT'' = Some v \<and> v \<noteq> [] \<longrightarrow>
        py_int rt v = Some (cfg_port c)) \<and>
     (tbl_settings d ''SMTP_PORT'' \<in> {None, Some []} \<longrightarrow>
        (case env ''SMTP_PORT'' of None \<Rightarrow> cfg_port c = 587
                                | Some e \<Rightarrow> py_int rt e = Some (cfg_port c))) \<and>
     (\<forall>v. tbl_settings d ''SMTP_FROM'' = Some v \<and> v \<noteq> [] \<longrightarrow> cfg_from c = v) \<and>
     (tbl_settings d ''SMTP_FROM'' \<in> {None, Some []} \<longrightarrow>
        cfg_from c =
          (let e = (case env ''SMTP_FROM'' of
                      None \<Rightarrow> (case env ''SMTP_USER'' of None \<Rightarrow> [] | Some u \<Rightarrow> u)
                    | Some f \<Rightarrow> f)
           in if e = [] then ''no-reply@example.com'' else e))"
proof -
  let ?s = "tbl_settings d"
  from assms have
    host: "cfg_host c = py_or (?s ''SMTP_HOST'') (getenv env ''SMTP_HOST'' [])" and
    user: "cfg_user c = py_or (?s ''SMTP_USER'') (getenv env ''SMTP_USER'' [])" and
    pass: "cfg_password c = py_or (?s ''SMTP_PASS'') (getenv env ''SMTP_PASS'' [])" and
    port: "py_int rt (py_or (?s ''SMTP_PORT'') (getenv env ''SMTP_PORT'' ''587'')) =
             Some (cfg_port c)" and
    frm: "cfg_from c =
            py_or (Some (py_or (?s ''SMTP_FROM'')
                           (getenv env ''SMTP_FROM'' (getenv env ''SMTP_USER'' []))))
              ''no-reply@example.com''"
    by (auto simp: get_smtp_config_def get_settings_def Let_def split: option.splits)
  have 1: "\<forall>v. ?s ''SMTP_HOST'' = Some v \<and> v \<noteq> [] \<longrightarrow> cfg_host c = v"
    by (simp add: host py_or_def)
  have 2: "?s ''SMTP_HOST'' \<in> {None, Some []} \<longrightarrow>
        cfg_host c = (case env ''SMTP_HOST'' of None \<Rightarrow> [] | Some e \<Rightarrow> e)"
    by (auto simp: host py_or_def getenv_def)
  have 3: "\<forall>v. ?s ''SMTP_USER'' = Some v \<and> v \<noteq> [] \<longrightarrow> cfg_user c = v"
    by (simp add: user py_or_def)
  have 4: "?s ''SMTP_USER'' \<in> {None, Some []} \<longrightarrow>
        cfg_user c = (case env ''SMTP_USER'' of None \<Rightarrow> [] | Some e \<Rightarrow> e)"
    by (auto simp: user py_or_def getenv_def)
  have 5: "\<forall>v. ?s ''SMTP_PASS'' = Some v \<and> v \<noteq> [] \<longrightarrow> cfg_password c = v"
    by (simp add: pass py_or_def)
  have 6: "?s ''SMTP_PASS'' \<in> {None, Some []} \<longrightarrow>
        cfg_password c = (case env ''SMTP_PASS'' of None \<Rightarrow> [] | Some e \<Rightarrow> e)"
    by (auto simp: pass py_or_def getenv_def)
  have 7: "\<forall>v. ?s ''SMTP_PORT'' = Some v \<and> v \<noteq> [] \<longrightarrow> py_int rt v = Some (cfg_port c)"
    using port by (auto simp: py_or_def)
  have 8: "?s ''SMTP_PORT'' \<in> {None, Some []} \<longrightarrow>
        (case env ''SMTP_PORT'' of None \<Rightarrow> cfg_port c = 587
                                | Some e \<Rightarrow> py_int rt e = Some (cfg_port c))"
    using port by (auto simp: py_or_def getenv_def py_int_587 split: option.splits)
  have 9: "\<forall>v. ?s ''SMTP_FROM'' = Some v \<and> v \<noteq> [] \<longrightarrow> cfg_from c = v"
    by (simp add: frm py_or_def)
  have 10: "?s ''SMTP_FROM'' \<in> {None, Some []} \<longrightarrow>
        cfg_from c =
          (let e = (case env ''SMTP_FROM'' of
                      None \<Rightarrow> (case env ''SMTP_USER'' of None \<Rightarrow> [] | Some u \<Rightarrow> u)
                    | Some f \<Rightarrow> f)
           in if e = [] then ''no-reply@example.com'' else e)"
    by (auto simp: frm py_or_def getenv_def Let_def split: option.splits)
  from 1 2 3 4 5 6 7 8 9 10 show ?thesis by blast
qed

theorem get_smtp_config_layers_witness:
  "tbl_settings agenda ''SMTP_USER'' = Some ''gestor'' \<and>
   tbl_settings agenda ''SMTP_HOST'' = Some [] \<and>
   tbl_settings agenda ''SMTP_PORT'' = None \<and> entorno ''SMTP_PORT'' = None \<and>
   (\<exists>c. get_smtp_config cpython entorno agenda = Inr c \<and> cfg_user c = ''gestor'' \<and>
        cfg_host c = ''smtp.example.org'' \<and> cfg_port c = 587)"
proof -
  let ?c = "\<lparr>cfg_host = ''smtp.example.org'', cfg_port = 587, cfg_user = ''gestor'',
             cfg_password = [], cfg_from = ''no-reply@example.com''\<rparr>"
  have s: "tbl_settings agenda ''SMTP_USER'' = Some ''gestor''"
    "tbl_settings agenda ''SMTP_HOST'' = Some []" "tbl_settings agenda ''SMTP_PORT'' = None"
    "entorno ''SMTP_PORT'' = None" "entorno ''SMTP_HOST'' = Some ''smtp.example.org''"
    by (simp_all add: agenda_def entorno_def)
  note l = get_smtp_config_layers [OF smtp_config_agenda(1)]
  from l s(1) have "cfg_user ?c = ''gestor''" by blast
  moreover from l s(2,5) have "cfg_host ?c = ''smtp.example.org''" by simp
  moreover from l s(3,4) have "cfg_port ?c = 587" by simp
  ultimately show ?thesis using s(1-4) smtp_config_agenda(1) by blast
qed

section \<open>Phone numbers in E.164\<close>

lemma dec_digits: "\<forall>c \<in> set (dec n). CHR ''0'' \<le> c \<and> c \<le> CHR ''9''"
proof (induction n rule: dec.induct)
  case (1 n)
  have d: "CHR ''0'' \<le> digit_char k \<and> digit_char k \<le> CHR ''9''" if "k < 10" for k
    using that by (simp add: less_eq_char_def of_char_digit)
  show ?case
  proof (cases "n < 10")
    case True
    then show ?thesis using d [of n] by (simp add: dec_small)
  next
    case False
    then show ?thesis using 1 d [of "n mod 10"] by (simp add: dec_step)
  qed
qed

lemma dec_not_empty: "dec n \<noteq> []"
  by (cases "n < 10") (simp_all add: dec_small dec_step)

lemma dec_Suc_0: "dec (Suc 0) = ''1''"
  using dec_small [of 1] by (simp add: digit_char_numeral)

lemma dec_4155552671: "dec 4155552671 = ''4155552671''"
  by (simp add: dec.simps [of "numeral n" for n] digit_char_numeral)

lemma dec_54: "dec 54 = ''54''" and dec_1143210000: "dec 1143210000 = ''1143210000''"
  by (simp_all add: dec.simps [of "numeral n" for n] digit_char_numeral dec_Suc_0)

text \<open>
  Claim C8. Whatever the library's parser and validity tests are: a value that
  \<^verbatim>\<open>validar_y_normalizar_telefono\<close> returns is the E.164 writing of the number parsed, a
  number that passes both validity tests: a plus sign, the digits of its country code and
  the digits of its national number, and nothing else; every number that parses and passes
  both tests is returned so. When the parsed number fails one of the two validity tests,
  or the text does not parse, the function raises \<^verbatim>\<open>ValueError\<close> and returns nothing.
\<close>

theorem validar_y_normalizar_telefono_e164:
  "(\<forall>s. validar_y_normalizar_telefono lib telefono region = Inr s \<longrightarrow>
      (\<exists>num. parse lib telefono region = Inr num \<and> is_valid_number lib num \<and>
             is_valid_number_for_region lib num region \<and>
             s = ''+'' @ dec (country_code num) @ dec (national_number num)) \<and>
      (\<exists>ds. s = CHR ''+'' # ds \<and> ds \<noteq> [] \<and>
            (\<forall>c \<in> set ds. CHR ''0'' \<le> c \<and> c \<le> CHR ''9''))) \<and>
   (\<forall>num. parse lib telefono region = Inr num \<and> is_valid_number lib num \<and>
      is_valid_number_for_region lib num region \<longrightarrow>
      validar_y_normalizar_telefono lib telefono region =
        Inr (''+'' @ dec (country_code num) @ dec (national_number num))) \<and>
   (\<forall>num. parse lib telefono region = Inr num \<and>
      \<not> (is_valid_number lib num \<and> is_valid_number_for_region lib num region) \<longrightarrow>
      (\<exists>msg. validar_y_normalizar_telefono lib telefono region = Inl (ValueError msg))) \<and>
   (\<forall>e. parse lib telefono region = Inl e \<longrightarrow>
      (\<exists>msg. validar_y_normalizar_telefono lib telefono region = Inl (ValueError msg)))"
proof -
  have "\<exists>ds. format_number_E164 num = CHR ''+'' # ds \<and> ds \<noteq> [] \<and>
          (\<forall>c \<in> set ds. CHR ''0'' \<le> c \<and> c \<le> CHR ''9'')" for num
    using dec_digits [of "country_code num"] dec_digits [of "national_number num"]
      dec_not_empty [of "country_code num"]
    by (auto simp: format_number_E164_def)
  moreover have "format_number_E164 num =
      ''+'' @ dec (country_code num) @ dec (national_number num)" for num
    by (simp add: format_number_E164_def)
  ultimately show ?thesis
    by (auto simp: validar_y_normalizar_telefono_def split: sum.splits if_splits)
qed

theorem validar_y_normalizar_telefono_e164_witness:
  "parse lib_demo ''(415) 555-2671'' DEFAULT_REGION =
     Inr \<lparr>country_code = 1, national_number = 4155552671\<rparr> \<and>
   validar_y_normalizar_telefono lib_demo ''(415) 555-2671'' DEFAULT_REGION =
     Inr ''+14155552671'' \<and>
   parse lib_demo ''+54 11 4321-0000'' ''AR'' =
     Inr \<lparr>country_code = 54, national_number = 1143210000\<rparr> \<and>
   validar_y_normalizar_telefono lib_demo ''+54 11 4321-0000'' ''AR'' =
     Inr ''+541143210000'' \<and>
   \<not> is_valid_number_for_region lib_demo \<lparr>country_code = 1, national_number = 4155552671\<rparr>
       ''AR'' \<and>
   (\<exists>msg. validar_y_normalizar_telefono lib_demo ''(415) 555-2671'' ''AR'' =
           Inl (ValueError msg)) \<and>
   (\<exists>msg. validar_y_normalizar_telefono lib_demo ''415'' DEFAULT_REGION =
           Inl (ValueError msg))"
proof -
  let ?us = "\<lparr>country_code = 1, national_number = 4155552671\<rparr>"
  let ?ar = "\<lparr>country_code = 54, national_number = 1143210000\<rparr>"
  have p: "parse lib_demo ''(415) 555-2671'' DEFAULT_REGION = Inr ?us"
    "parse lib_demo ''+54 11 4321-0000'' ''AR'' = Inr ?ar"
    "parse lib_demo ''(415) 555-2671'' ''AR'' = Inr ?us"
    "parse lib_demo ''415'' DEFAULT_REGION =
       Inl ''(1) The string supplied did not seem to be a phone number.''"
    by (simp_all add: lib_demo_def)
  have v: "is_valid_number lib_demo ?us" "is_valid_number_for_region lib_demo ?us DEFAULT_REGION"
    "is_valid_number lib_demo ?ar" "is_valid_number_for_region lib_demo ?ar ''AR''"
    and n: "\<not> is_valid_number_for_region lib_demo ?us ''AR''"
    by (simp_all add: lib_demo_def DEFAULT_REGION_def)
  note t = validar_y_normalizar_telefono_e164 [of lib_demo]
  from t [of "''(415) 555-2671''" DEFAULT_REGION] p(1) v(1,2)
  have "validar_y_normalizar_telefono lib_demo ''(415) 555-2671'' DEFAULT_REGION =
      Inr (''+'' @ dec (country_code ?us) @ dec (national_number ?us))"
    by blast
  then have us: "validar_y_normalizar_telefono lib_demo ''(415) 555-2671'' DEFAULT_REGION =
      Inr ''+14155552671''"
    by (simp add: dec_Suc_0 dec_4155552671)
  from t [of "''+54 11 4321-0000''" "''AR''"] p(2) v(3,4)
  have "validar_y_normalizar_telefono lib_demo ''+54 11 4321-0000'' ''AR'' =
      Inr (''+'' @ dec (country_code ?ar) @ dec (national_number ?ar))"
    by blast
  then have ar: "validar_y_normalizar_telefono lib_demo ''+54 11 4321-0000'' ''AR'' =
      Inr ''+541143210000''"
    by (simp add: dec_54 dec_1143210000)
  from t [of "''(415) 555-2671''" "''AR''"] p(3) n
  have bad: "\<exists>msg. validar_y_normalizar_telefono lib_demo ''(415) 555-2671'' ''AR'' =
      Inl (ValueError msg)"
    by blast
  from t [of "''415''" DEFAULT_REGION] p(4)
  have unparsed: "\<exists>msg. validar_y_normalizar_telefono lib_demo ''415'' DEFAULT_REGION =
      Inl (ValueError msg)"
    by blast
  from p(1,2) us ar n bad unparsed show ?thesis by blast
qed

section \<open>Text order and time order\<close>

text \<open>
  \<^verbatim>\<open>repo_turnos_list\<close> compares start times as text. For the strings that
  \<^verbatim>\<open>strftime("%Y-%m-%d %H:%M")\<close> writes with a four-digit year, the order of the text is
  the order of the times.
\<close>

lemma digit_char_less: "i < 10 \<Longrightarrow> j < 10 \<Longrightarrow> digit_char i < digit_char j \<longleftrightarrow> i < j"
  by (simp add: less_char_def of_char_digit)

lemma digit_char_inj: "i < 10 \<Longrightarrow> j < 10 \<Longrightarrow> digit_char i = digit_char j \<longleftrightarrow> i = j"
  by (auto simp: digit_char_eq of_char_digit)

lemma lex_digit:
  fixes q q' r r' :: nat
  assumes "r < 10" "r' < 10"
  shows "(q < q' \<or> q = q' \<and> (r < r' \<or> r = r' \<and> R)) \<longleftrightarrow>
         (10 * q + r < 10 * q' + r' \<or> 10 * q + r = 10 * q' + r' \<and> R)"
  using assms by auto

lemma digits_le:
  assumes "a < 10" "b < 10"
  shows "digit_char a # s \<le> digit_char b # t \<longleftrightarrow> a < b \<or> a = b \<and> s \<le> t"
  using assms by (simp add: digit_char_less digit_char_inj)

lemma zpad2_le:
  assumes "n < 100" "n' < 100"
  shows "zpad 2 n @ s \<le> zpad 2 n' @ t \<longleftrightarrow> n < n' \<or> n = n' \<and> s \<le> t"
proof -
  have d: "n div 10 < 10" "n mod 10 < 10" "n' div 10 < 10" "n' mod 10 < 10"
    using assms by simp_all
  have "zpad 2 n @ s \<le> zpad 2 n' @ t \<longleftrightarrow>
        (n div 10 < n' div 10 \<or> n div 10 = n' div 10 \<and>
          (n mod 10 < n' mod 10 \<or> n mod 10 = n' mod 10 \<and> s \<le> t))"
    using assms d by (simp add: zpad2 digit_char_less digit_char_inj)
  also have "\<dots> \<longleftrightarrow> (10 * (n div 10) + n mod 10 < 10 * (n' div 10) + n' mod 10 \<or>
        10 * (n div 10) + n mod 10 = 10 * (n' div 10) + n' mod 10 \<and> s \<le> t)"
    using d(2,4) by (rule lex_digit)
  finally show ?thesis by simp
qed

lemma zpad4_le:
  assumes "n < 10000" "n' < 10000"
  shows "zpad 4 n @ s \<le> zpad 4 n' @ t \<longleftrightarrow> n < n' \<or> n = n' \<and> s \<le> t"
proof -
  let ?a = "n div 1000" and ?b = "n div 100 mod 10" and ?c = "n div 10 mod 10" and ?d = "n mod 10"
  let ?a' = "n' div 1000" and ?b' = "n' div 100 mod 10" and ?c' = "n' div 10 mod 10"
    and ?d' = "n' mod 10"
  have d: "?a < 10" "?b < 10" "?c < 10" "?d < 10" "?a' < 10" "?b' < 10" "?c' < 10" "?d' < 10"
    using assms by simp_all
  have "zpad 4 n @ s \<le> zpad 4 n' @ t \<longleftrightarrow>
        (?a < ?a' \<or> ?a = ?a' \<and> (?b < ?b' \<or> ?b = ?b' \<and>
          (?c < ?c' \<or> ?c = ?c' \<and> (?d < ?d' \<or> ?d = ?d' \<and> s \<le> t))))"
    using assms d by (simp add: zpad4 digit_char_less digit_char_inj)
  also have "\<dots> \<longleftrightarrow> (10 * ?a + ?b < 10 * ?a' + ?b' \<or> 10 * ?a + ?b = 10 * ?a' + ?b' \<and>
          (?c < ?c' \<or> ?c = ?c' \<and> (?d < ?d' \<or> ?d = ?d' \<and> s \<le> t)))"
    using d(2,6) by (rule lex_digit)
  also have "\<dots> \<longleftrightarrow> (10 * (10 * ?a + ?b) + ?c < 10 * (10 * ?a' + ?b') + ?c' \<or>
          10 * (10 * ?a + ?b) + ?c = 10 * (10 * ?a' + ?b') + ?c' \<and>
          (?d < ?d' \<or> ?d = ?d' \<and> s \<le> t))"
    using d(3,7) by (rule lex_digit)
  also have "\<dots> \<longleftrightarrow> (10 * (10 * (10 * ?a + ?b) + ?c) + ?d < 10 * (10 * (10 * ?a' + ?b') + ?c') + ?d' \<or>
          10 * (10 * (10 * ?a + ?b) + ?c) + ?d = 10 * (10 * (10 * ?a' + ?b') + ?c') + ?d' \<and>
          s \<le> t)"
    using lex_digit [OF d(4,8), of "10 * (10 * ?a + ?b) + ?c" "10 * (10 * ?a' + ?b') + ?c'" "s \<le> t"]
    by (simp add: less_eq_list_code)
  finally show ?thesis by (simp only: digits4_value)
qed

lemma strftime_chronological:
  assumes "1000 \<le> year a \<or> pad_year rt" "1000 \<le> year b \<or> pad_year rt"
    and "year a < 10000" "year b < 10000"
    and "month a < 100" "month b < 100" "day a < 100" "day b < 100"
    and "hour a < 100" "hour b < 100" "minute a < 100" "minute b < 100"
  shows "strftime rt a \<le> strftime rt b \<longleftrightarrow> up_to_minute_le a b"
proof -
  have y: "(if pad_year rt then zpad 4 (year x) else dec (year x)) = zpad 4 (year x)"
    if "1000 \<le> year x \<or> pad_year rt" "year x < 10000" for x :: datetime
    using that by (auto simp: zpad4 dec4)
  have m: "zpad 2 (minute a) \<le> zpad 2 (minute b) \<longleftrightarrow> minute a \<le> minute b"
    using zpad2_le [OF assms(11,12), of "[]" "[]"] by auto
  show ?thesis
    using assms
    by (simp add: strftime_def y zpad4_le zpad2_le m up_to_minute_le_def)
qed

section \<open>The listing and the times of the appointments\<close>

text \<open>
  When every start time stored is what \<^verbatim>\<open>strftime\<close> writes for a time with a four-digit
  year, and the clock has a four-digit year too, the listing selects by time: the future
  filter keeps the appointments at or after the clock's minute, the past filter those
  before it.
\<close>

lemma repo_turnos_list_chronological:
  assumes "distinct (map c_id (tbl_clientes d))"
    and "1000 \<le> year now" "year now < 10000" "month now < 100" "day now < 100"
      "hour now < 100" "minute now < 100"
    and "\<forall>t \<in> set (tbl_turnos d).
           t_inicio t = strftime rt (at t) \<and> 1000 \<le> year (at t) \<and> year (at t) < 10000 \<and>
           month (at t) < 100 \<and> day (at t) < 100 \<and> hour (at t) < 100 \<and> minute (at t) < 100"
  shows "mset (map listing_cols (repo_turnos_list rt now d (Some True))) =
           mset (map turno_cols (filter (\<lambda>t. up_to_minute_le now (at t)) (tbl_turnos d)))"
    and "mset (map listing_cols (repo_turnos_list rt now d (Some False))) =
           mset (map turno_cols (filter (\<lambda>t. \<not> up_to_minute_le now (at t)) (tbl_turnos d)))"
proof -
  have le: "strftime rt now \<le> t_inicio t \<longleftrightarrow> up_to_minute_le now (at t)"
    if "t \<in> set (tbl_turnos d)" for t
    using that assms(2-8) strftime_chronological [of now rt "at t"] by auto
  then have less: "t_inicio t < strftime rt now \<longleftrightarrow> \<not> up_to_minute_le now (at t)"
    if "t \<in> set (tbl_turnos d)" for t
    using that by (simp add: not_le [symmetric])
  have f: "filter (\<lambda>t. strftime rt now \<le> t_inicio t) (tbl_turnos d) =
           filter (\<lambda>t. up_to_minute_le now (at t)) (tbl_turnos d)"
    by (rule filter_cong) (simp_all add: le)
  have p: "filter (\<lambda>t. t_inicio t < strftime rt now) (tbl_turnos d) =
           filter (\<lambda>t. \<not> up_to_minute_le now (at t)) (tbl_turnos d)"
    by (rule filter_cong) (simp_all add: less)
  note l = repo_turnos_list_filter_order [OF assms(1), of rt now]
  from l show "mset (map listing_cols (repo_turnos_list rt now d (Some True))) =
           mset (map turno_cols (filter (\<lambda>t. up_to_minute_le now (at t)) (tbl_turnos d)))"
    by (simp only: f)
  from l show "mset (map listing_cols (repo_turnos_list rt now d (Some False))) =
           mset (map turno_cols (filter (\<lambda>t. \<not> up_to_minute_le now (at t)) (tbl_turnos d)))"
    by (simp only: p)
qed

text \<open>
  Claim C5 fails on the code. On a runtime whose \<^verbatim>\<open>strftime\<close> does not pad the year,
  \<^verbatim>\<open>repo_turnos_add\<close> with the date \<^verbatim>\<open>0999-01-01\<close> and the time \<^verbatim>\<open>10:00\<close> stores the
  start time \<^verbatim>\<open>999-01-01 10:00\<close>. That time lies before the clock (10 February 2024,
  17:45), and yet the appointment (id 4) is in the listing of future appointments, after
  those of 2024, and is not in the listing of past ones.
\<close>

theorem repo_turnos_list_year_999:
  "fst (repo_turnos_add cpython reloj agenda None ''0999-01-01'' ''10:00'' ''censo'') = Inr 4 \<and>
   map t_inicio
     (tbl_turnos (snd (repo_turnos_add cpython reloj agenda None ''0999-01-01'' ''10:00''
        ''censo''))) =
     [''2024-03-01 10:00'', ''2024-01-15 08:30'', ''2024-02-10 17:45'', ''999-01-01 10:00''] \<and>
   strptime cpython ''0999-01-01 10:00'' =
     Some \<lparr>year = 999, month = 1, day = 1, hour = 10, minute = 0, second = 0\<rparr> \<and>
   \<not> up_to_minute_le reloj
       \<lparr>year = 999, month = 1, day = 1, hour = 10, minute = 0, second = 0\<rparr> \<and>
   map l_id
     (repo_turnos_list cpython reloj
        (snd (repo_turnos_add cpython reloj agenda None ''0999-01-01'' ''10:00'' ''censo''))
        (Some True)) = [3, 1, 4] \<and>
   map l_id
     (repo_turnos_list cpython reloj
        (snd (repo_turnos_add cpython reloj agenda None ''0999-01-01'' ''10:00'' ''censo''))
        (Some False)) = [2]"
  by code_simp

section \<open>Normalizing an email address\<close>




end
